theory Spec2Isabelle
  imports Main "HOL-Library.AList"
begin

section \<open>The voice CAPTCHA server of \<^verbatim>\<open>app.py\<close>\<close>

text \<open>
  The development embeds the request handlers of \<^verbatim>\<open>app.py\<close> (challenge creation,
  verification, the rate limiter) and the sequence generators they call.

  \<^item> A Python string is a \<open>string\<close>; each \<open>char\<close> stands for one code point below 256.
  \<^item> A \<^verbatim>\<open>datetime\<close> is an \<open>int\<close>, the microseconds since some epoch; a
    \<^verbatim>\<open>timedelta(seconds=2)\<close> is \<open>2000000\<close>. The clock is an input of every handler.
  \<^item> The module \<^verbatim>\<open>random\<close> is an explicit stream of draws that each generator
    consumes from the front and hands back.
  \<^item> The table \<^verbatim>\<open>challenges\<close> of \<^verbatim>\<open>captcha.db\<close> is a map from the primary key to
    the row; the dictionary \<^verbatim>\<open>challenge_attempts\<close> is a map from the address to a time.
  \<^item> An exception that leaves a handler is a value \<open>Inl e\<close>.
  \<^item> SQLite's \<^verbatim>\<open>INTEGER\<close> column \<^verbatim>\<open>attempts\<close> is an unbounded \<open>int\<close>: the 64-bit
    limit is out of reach of a counter that grows by one per request.
\<close>

subsection \<open>JSON values and dictionaries\<close>

text \<open>
  The body of a request is a JSON object (\<^verbatim>\<open>request.json or {}\<close>), kept as the list
  of its fields. The values of the fields are the JSON scalars; floats, arrays and
  objects as field values are not modelled.
\<close>

datatype json = JNull | JBool bool | JInt int | JStr string

type_synonym jobj = "(string \<times> json) list"

text \<open>\<^verbatim>\<open>d.get(key, default)\<close>\<close>

definition dict_get :: "('k \<times> 'v) list \<Rightarrow> 'k \<Rightarrow> 'v \<Rightarrow> 'v" where
  "dict_get d k dflt = (case map_of d k of None \<Rightarrow> dflt | Some v \<Rightarrow> v)"

text \<open>Python's truth value of a JSON scalar (\<^verbatim>\<open>not challenge_id\<close>).\<close>

fun truthy :: "json \<Rightarrow> bool" where
  "truthy JNull = False"
| "truthy (JBool b) = b"
| "truthy (JInt i) = (i \<noteq> 0)"
| "truthy (JStr s) = (s \<noteq> [])"

text \<open>Decimal rendering of a number, as \<^verbatim>\<open>str\<close> and the f-strings produce it.\<close>

fun str_nat :: "nat \<Rightarrow> string" where
  "str_nat n =
     (if n < 10 then [''0123456789'' ! n]
      else str_nat (n div 10) @ [''0123456789'' ! (n mod 10)])"

declare str_nat.simps [simp del]

definition str_int :: "int \<Rightarrow> string" where
  "str_int i = (if i < 0 then CHR ''-'' # str_nat (nat (- i)) else str_nat (nat i))"

text \<open>\<^verbatim>\<open>str(user_response)\<close> on a JSON scalar.\<close>

fun py_str :: "json \<Rightarrow> string" where
  "py_str JNull = ''None''"
| "py_str (JBool b) = (if b then ''True'' else ''False'')"
| "py_str (JInt i) = str_int i"
| "py_str (JStr s) = s"

text \<open>
  \<^verbatim>\<open>str.isdigit\<close> on a code point below 256: the ten decimal digits, and the
  superscripts two, three and one (U+00B2, U+00B3, U+00B9), which Unicode also
  classifies as digits.
\<close>

definition isdigit :: "char \<Rightarrow> bool" where
  "isdigit c =
     (let n = (of_char c :: nat)
      in (48 \<le> n \<and> n \<le> 57) \<or> n = 178 \<or> n = 179 \<or> n = 185)"

subsection \<open>The random module\<close>

type_synonym rng = "nat \<Rightarrow> nat"

text \<open>\<^verbatim>\<open>random.randint(a, b)\<close>, called with \<open>a \<le> b\<close> only: one draw.\<close>

definition randint :: "int \<Rightarrow> int \<Rightarrow> rng \<Rightarrow> int \<times> rng" where
  "randint a b g = (a + int (g 0) mod (b - a + 1), \<lambda>i. g (Suc i))"

text \<open>\<^verbatim>\<open>random.choices(population, k=k)\<close> on a non-empty population: \<open>k\<close> draws.\<close>

definition choices :: "'a list \<Rightarrow> nat \<Rightarrow> rng \<Rightarrow> 'a list \<times> rng" where
  "choices population k g =
     (map (\<lambda>i. population ! (g i mod length population)) [0..<k], \<lambda>i. g (i + k))"

subsection \<open>State\<close>

text \<open>A row of the table \<^verbatim>\<open>challenges\<close> (the key \<^verbatim>\<open>id\<close> is the map's argument).\<close>

record challenge =
  sequence :: string
  created_at :: int
  attempts :: int
  solved :: bool
  challenge_type :: string

text \<open>
  The globals of the module: the dataset loader's lists, the flag of the loader and the
  flag of the generator, the rate limiter's dictionary, and the table.
\<close>

record state =
  audio_files :: "string list"
  text_labels :: "string list"
  loader_use_dataset :: bool
  use_dataset :: bool
  challenge_attempts :: "string \<rightharpoonup> int"
  challenges :: "string \<rightharpoonup> challenge"

datatype error = IntegrityError | OverflowError | IndexError | KeyError

subsection \<open>verify\_response\<close>

text \<open>
  \<^verbatim>\<open>SELECT ... FROM challenges WHERE id = ?\<close> with the parameter bound from a JSON
  scalar. A string is compared as it is. Python binds an integer (and a boolean, as 0
  or 1) as an SQLite integer, refusing one outside 64 bits; the column has TEXT affinity,
  so the integer is compared through its decimal text. The result is the key of the
  matching row with the row.
\<close>

fun select_by_id :: "(string \<rightharpoonup> challenge) \<Rightarrow> json \<Rightarrow> error + (string \<times> challenge) option" where
  "select_by_id tbl JNull = Inr None"
| "select_by_id tbl (JBool b) =
     Inr (map_option (Pair (if b then ''1'' else ''0'')) (tbl (if b then ''1'' else ''0'')))"
| "select_by_id tbl (JInt i) =
     (if - (2 ^ 63) \<le> i \<and> i < 2 ^ 63
      then Inr (map_option (Pair (str_int i)) (tbl (str_int i)))
      else Inl OverflowError)"
| "select_by_id tbl (JStr k) = Inr (map_option (Pair k) (tbl k))"

definition verify_response :: "jobj \<Rightarrow> string \<Rightarrow> int \<Rightarrow> state \<Rightarrow> (error + jobj) \<times> state" where
  "verify_response data ip_address now s =
     (let challenge_id = dict_get data ''challenge_id'' JNull;
          user_response = dict_get data ''response'' (JStr '''')
      in
      if (case challenge_attempts s ip_address of
            None \<Rightarrow> False
          | Some last_attempt \<Rightarrow> now - last_attempt < 2000000)
      then (Inr [(''success'', JBool False),
                 (''message'', JStr ''Please wait before trying again''),
                 (''rate_limited'', JBool True)], s)
      else
        let s1 = s\<lparr>challenge_attempts := (challenge_attempts s)(ip_address \<mapsto> now)\<rparr>
        in
        if \<not> truthy challenge_id
        then (Inr [(''success'', JBool False), (''error'', JStr ''Missing challenge_id'')], s1)
        else
          (case select_by_id (challenges s1) challenge_id of
             Inl e \<Rightarrow> (Inl e, s1)
           | Inr None \<Rightarrow>
               (Inr [(''success'', JBool False), (''error'', JStr ''Invalid challenge'')], s1)
           | Inr (Some (k, row)) \<Rightarrow>
               let row1 = row\<lparr>attempts := attempts row + 1\<rparr>;
                   s2 = s1\<lparr>challenges := (challenges s1)(k \<mapsto> row1)\<rparr>;
                   user_clean = filter isdigit (py_str user_response);
                   sequence_clean = filter isdigit (sequence row);
                   success = (user_clean = sequence_clean);
                   s3 = (if success
                         then s2\<lparr>challenges := (challenges s2)(k \<mapsto> row1\<lparr>solved := True\<rparr>)\<rparr>
                         else s2)
               in (Inr [(''success'', JBool success),
                        (''message'', JStr (if success then ''Access granted'' else ''Access denied'')),
                        (''expected'', JStr sequence_clean),
                        (''provided'', JStr user_clean)], s3)))"

subsection \<open>The sequence generators\<close>

text \<open>
  \<^verbatim>\<open>SimpleDatasetLoader.load_audio_samples\<close>: the loop \<^verbatim>\<open>for i in range(max_samples)\<close>
  with the two lists it appends to. The length is drawn before the digits, as Python
  evaluates the argument \<^verbatim>\<open>k=random.randint(3, 6)\<close> first. The file name carries
  \<^verbatim>\<open>i\<close> padded with zeros to three places (\<^verbatim>\<open>{i:03d}\<close>). The list of pairs the
  method returns is used by no caller and is left out.
\<close>

fun load_loop :: "nat \<Rightarrow> nat \<Rightarrow> string list \<Rightarrow> string list \<Rightarrow> rng \<Rightarrow> (string list \<times> string list) \<times> rng" where
  "load_loop 0 i files labels g = ((files, labels), g)"
| "load_loop (Suc n) i files labels g =
     (let (k, g1) = randint 3 6 g;
          (sq, g2) = choices ''0123456789'' (nat k) g1
      in load_loop n (Suc i)
           (files @ [''/simulated/audio/audio_''
                    @ replicate (3 - length (str_nat i)) (CHR ''0'') @ str_nat i @ ''.wav''])
           (labels @ [sq]) g2)"

definition load_audio_samples :: "nat \<Rightarrow> state \<Rightarrow> rng \<Rightarrow> state \<times> rng" where
  "load_audio_samples max_samples s g =
     (let ((files, labels), g') = load_loop max_samples 0 [] [] g
      in (s\<lparr>audio_files := files, text_labels := labels\<rparr>, g'))"

text \<open>
  \<^verbatim>\<open>SimpleDatasetLoader.get_random_captcha\<close>. Reading \<^verbatim>\<open>text_labels[idx]\<close> beyond
  the list raises.
\<close>

definition get_random_captcha :: "state \<Rightarrow> rng \<Rightarrow> (error + (string \<times> string) option) \<times> state \<times> rng" where
  "get_random_captcha s g =
     (let (s1, g1) = (if audio_files s = [] then load_audio_samples 50 s g else (s, g))
      in
      if audio_files s1 \<noteq> []
      then
        let (idx, g2) = randint 0 (int (length (audio_files s1)) - 1) g1
        in if nat idx < length (text_labels s1)
           then (Inr (Some (audio_files s1 ! nat idx, text_labels s1 ! nat idx)), s1, g2)
           else (Inl IndexError, s1, g2)
      else (Inr None, s1, g1))"

text \<open>\<^verbatim>\<open>EnhancedAudioCaptchaGenerator.generate_synthetic_challenge\<close>\<close>

definition generate_synthetic_challenge :: "rng \<Rightarrow> (string \<times> string) list \<times> rng" where
  "generate_synthetic_challenge g =
     (let (sq, g1) = choices ''0123456789'' 4 g
      in ([(''type'', ''synthetic''),
           (''sequence'', sq),
           (''message'', ''Please speak or type the sequence: '' @ sq)], g1))"

text \<open>\<^verbatim>\<open>EnhancedAudioCaptchaGenerator.generate_challenge_from_dataset\<close>\<close>

definition generate_challenge_from_dataset ::
    "state \<Rightarrow> rng \<Rightarrow> (error + (string \<times> string) list) \<times> state \<times> rng" where
  "generate_challenge_from_dataset s g =
     (if \<not> use_dataset s
      then (let (ch, g1) = generate_synthetic_challenge g in (Inr ch, s, g1))
      else
        (case get_random_captcha s g of
           (Inl e, s1, g1) \<Rightarrow> (Inl e, s1, g1)
         | (Inr (Some (audio_path, true_text)), s1, g1) \<Rightarrow>
             if audio_path \<noteq> [] \<and> true_text \<noteq> []
             then (Inr [(''type'', ''dataset_audio''),
                        (''audio_path'', audio_path),
                        (''true_text'', true_text),
                        (''message'',
                           ''Listen to the audio and type what you hear. The sequence has ''
                             @ str_nat (length true_text) @ '' digits.'')], s1, g1)
             else (let (ch, g2) = generate_synthetic_challenge g1 in (Inr ch, s1, g2))
         | (Inr None, s1, g1) \<Rightarrow>
             (let (ch, g2) = generate_synthetic_challenge g1 in (Inr ch, s1, g2))))"

text \<open>
  \<^verbatim>\<open>EnhancedAudioCaptchaGenerator.initialize_dataset\<close>, run once when the module is
  loaded, on the fresh loader and generator, with an empty table and an empty
  dictionary of the rate limiter.
\<close>

definition initialize_dataset :: "state \<Rightarrow> rng \<Rightarrow> state \<times> rng" where
  "initialize_dataset s g =
     (let s1 = s\<lparr>loader_use_dataset := True\<rparr>;
          (s2, g1) = load_audio_samples 100 s1 g
      in (s2\<lparr>use_dataset := True\<rparr>, g1))"

definition fresh_state :: state where
  "fresh_state =
     \<lparr>audio_files = [], text_labels = [], loader_use_dataset = False, use_dataset = False,
      challenge_attempts = Map.empty, challenges = Map.empty\<rparr>"

definition initial_state :: "rng \<Rightarrow> state" where
  "initial_state g = fst (initialize_dataset fresh_state g)"

subsection \<open>The creation handlers\<close>

text \<open>
  \<open>digest text now\<close> stands for
  \<^verbatim>\<open>hashlib.md5(f"{text}{now}".encode()).hexdigest()\<close>; MD5 and the rendering of the
  time are not modelled, so the function is a parameter. The handlers read the clock
  twice: \<open>now\<close> for the id, \<open>now'\<close> for the column \<^verbatim>\<open>created_at\<close>.

  \<^verbatim>\<open>INSERT INTO challenges\<close> raises on a primary key that is already there, and gives
  \<^verbatim>\<open>attempts\<close> and \<^verbatim>\<open>solved\<close> the defaults of the schema of \<^verbatim>\<open>init_db\<close>.
\<close>

definition insert_challenge ::
    "string \<Rightarrow> string \<Rightarrow> int \<Rightarrow> string \<Rightarrow> (string \<rightharpoonup> challenge) \<Rightarrow> error + (string \<rightharpoonup> challenge)" where
  "insert_challenge cid sq ts ty tbl =
     (if cid \<in> dom tbl then Inl IntegrityError
      else Inr (tbl(cid \<mapsto> \<lparr>sequence = sq, created_at = ts, attempts = 0, solved = False,
                              challenge_type = ty\<rparr>)))"

text \<open>\<^verbatim>\<open>d[key]\<close>\<close>

definition dict_index :: "('k \<times> 'v) list \<Rightarrow> 'k \<Rightarrow> error + 'v" where
  "dict_index d k = (case map_of d k of None \<Rightarrow> Inl KeyError | Some v \<Rightarrow> Inr v)"

definition enhanced_generate_challenge ::
    "(string \<Rightarrow> int \<Rightarrow> string) \<Rightarrow> jobj \<Rightarrow> int \<Rightarrow> int \<Rightarrow> rng \<Rightarrow> state \<Rightarrow> (error + jobj) \<times> state" where
  "enhanced_generate_challenge digest data now now' g s =
     (let flag = dict_get data ''use_dataset'' (JBool True);
          (r, s1, g1) =
            (if truthy flag \<and> use_dataset s
             then generate_challenge_from_dataset s g
             else (let (ch, g1) = generate_synthetic_challenge g in (Inr ch, s, g1)))
      in
      case r of
        Inl e \<Rightarrow> (Inl e, s1)
      | Inr ch \<Rightarrow>
          let challenge_text = dict_get ch ''true_text'' (dict_get ch ''sequence'' '''');
              challenge_id = take 16 (digest challenge_text now)
          in
          (case dict_index ch ''type'' of
             Inl e \<Rightarrow> (Inl e, s1)
           | Inr ty \<Rightarrow>
               (case insert_challenge challenge_id challenge_text now' ty (challenges s1) of
                  Inl e \<Rightarrow> (Inl e, s1)
                | Inr tbl \<Rightarrow>
                    let s2 = s1\<lparr>challenges := tbl\<rparr>
                    in
                    (case dict_index ch ''message'' of
                       Inl e \<Rightarrow> (Inl e, s2)
                     | Inr msg \<Rightarrow>
                         let response_data =
                               [(''challenge_id'', JStr challenge_id),
                                (''challenge_type'', JStr ty),
                                (''message'', JStr msg),
                                (''sequence_length'', JInt (int (length challenge_text))),
                                (''audio_support'', JBool True),
                                (''audio_type'', JStr ''browser_tts''),
                                (''accessible'', JBool True)]
                         in
                         if ty = ''dataset_audio''
                         then (Inr (AList.update ''sequence'' (JStr challenge_text)
                                     (AList.update ''note'' (JStr ''Audio challenge from dataset'')
                                       (AList.update ''audio_type'' (JStr ''pre_recorded'')
                                         (AList.update ''audio_url''
                                            (JStr (''/api/audio/'' @ challenge_id))
                                            response_data)))), s2)
                         else (Inr (AList.update ''sequence'' (JStr challenge_text)
                                     (AList.update ''note''
                                        (JStr ''Synthetic text challenge with browser text-to-speech'')
                                        response_data)), s2)))))"

definition alternative_challenge ::
    "(string \<Rightarrow> int \<Rightarrow> string) \<Rightarrow> int \<Rightarrow> int \<Rightarrow> rng \<Rightarrow> state \<Rightarrow> (error + jobj) \<times> state" where
  "alternative_challenge digest now now' g s =
     (let (sq, g1) = choices ''0123456789'' 3 g;
          challenge_id = take 16 (digest sq now)
      in
      case insert_challenge challenge_id sq now' ''alternative'' (challenges s) of
        Inl e \<Rightarrow> (Inl e, s)
      | Inr tbl \<Rightarrow>
          (Inr [(''challenge_id'', JStr challenge_id),
                (''sequence'', JStr sq),
                (''message'', JStr (''Alternative challenge: Please type '' @ sq)),
                (''type'', JStr ''alternative_digits''),
                (''accessibility_note'', JStr ''Simplified challenge with shorter sequence'')],
           s\<lparr>challenges := tbl\<rparr>))"

subsection \<open>Runs of the server\<close>

text \<open>
  One request to one of the three handlers that touch the state, with the clock
  readings and the draws it meets.
\<close>

datatype request =
    Generate jobj int int rng
  | Alternative int int rng
  | Verify jobj string int

fun handle :: "(string \<Rightarrow> int \<Rightarrow> string) \<Rightarrow> request \<Rightarrow> state \<Rightarrow> (error + jobj) \<times> state" where
  "handle digest (Generate data now now' g) s = enhanced_generate_challenge digest data now now' g s"
| "handle digest (Alternative now now' g) s = alternative_challenge digest now now' g s"
| "handle digest (Verify data ip_address now) s = verify_response data ip_address now s"

fun run :: "(string \<Rightarrow> int \<Rightarrow> string) \<Rightarrow> request list \<Rightarrow> state \<Rightarrow> state" where
  "run digest [] s = s"
| "run digest (r # rs) s = run digest rs (snd (handle digest r s))"

subsection \<open>Notions the properties are stated with\<close>

text \<open>A string of the decimal digits \<^verbatim>\<open>0\<close> to \<^verbatim>\<open>9\<close>.\<close>

definition decimal :: "string \<Rightarrow> bool" where
  "decimal sq = (set sq \<subseteq> set ''0123456789'')"

text \<open>
  The loader's two lists run in step, and every label is a string of three to six
  decimal digits.
\<close>

definition dataset_ok :: "state \<Rightarrow> bool" where
  "dataset_ok s =
     (length (audio_files s) = length (text_labels s)
      \<and> (\<forall>sq \<in> set (text_labels s). decimal sq \<and> 3 \<le> length sq \<and> length sq \<le> 6))"

text \<open>Every stored expected answer is a string of three to six decimal digits.\<close>

definition store_ok :: "state \<Rightarrow> bool" where
  "store_ok s =
     (\<forall>cid row. challenges s cid = Some row \<longrightarrow>
        decimal (sequence row) \<and> 3 \<le> length (sequence row) \<and> length (sequence row) \<le> 6)"

text \<open>No file name of the loader is empty.\<close>

definition paths_ok :: "state \<Rightarrow> bool" where
  "paths_ok s = (\<forall>p \<in> set (audio_files s). p \<noteq> [])"

text \<open>
  The two dictionaries the generator returns, as
  \<open>generate_challenge_from_dataset\<close> and \<open>generate_synthetic_challenge\<close> build them.
\<close>

definition dataset_dict :: "(string \<times> string) list \<Rightarrow> string \<Rightarrow> bool" where
  "dataset_dict ch t =
     (\<exists>p. ch = [(''type'', ''dataset_audio''), (''audio_path'', p), (''true_text'', t),
                 (''message'', ''Listen to the audio and type what you hear. The sequence has ''
                             @ str_nat (length t) @ '' digits.'')])"

definition synthetic_dict :: "(string \<times> string) list \<Rightarrow> string \<Rightarrow> bool" where
  "synthetic_dict ch sq =
     (ch = [(''type'', ''synthetic''), (''sequence'', sq),
            (''message'', ''Please speak or type the sequence: '' @ sq)])"

text \<open>
  The first statement of \<open>enhanced_generate_challenge\<close>, which picks the generator,
  under a name of its own.
\<close>

definition chosen ::
  "jobj \<Rightarrow> rng \<Rightarrow> state \<Rightarrow> (error + (string \<times> string) list) \<times> state \<times> rng" where
  "chosen data g s =
     (if truthy (dict_get data ''use_dataset'' (JBool True)) \<and> use_dataset s
      then generate_challenge_from_dataset s g
      else (let (ch, g1) = generate_synthetic_challenge g in (Inr ch, s, g1)))"

section \<open>Auxiliary facts\<close>

subsection \<open>The verify handler, case by case\<close>

lemma gate_case:
  "(case challenge_attempts s ip of None \<Rightarrow> False | Some t0 \<Rightarrow> now - t0 < 2000000)
     = (\<not> (\<forall>t0. challenge_attempts s ip = Some t0 \<longrightarrow> 2000000 \<le> now - t0))"
  by (auto split: option.splits)

lemma select_by_id_Some:
  "select_by_id tbl j = Inr (Some (k, row)) \<Longrightarrow> tbl k = Some row"
  by (cases j) (auto split: if_splits)

lemma verify_limited:
  assumes "challenge_attempts s ip = Some t0" and "now - t0 < 2000000"
  shows "verify_response data ip now s =
     (Inr [(''success'', JBool False),
           (''message'', JStr ''Please wait before trying again''),
           (''rate_limited'', JBool True)], s)"
  using assms by (simp add: verify_response_def)

lemma verify_missing:
  assumes "\<forall>t0. challenge_attempts s ip = Some t0 \<longrightarrow> 2000000 \<le> now - t0"
    and "\<not> truthy (dict_get data ''challenge_id'' JNull)"
  shows "verify_response data ip now s =
     (Inr [(''success'', JBool False), (''error'', JStr ''Missing challenge_id'')],
      s\<lparr>challenge_attempts := (challenge_attempts s)(ip \<mapsto> now)\<rparr>)"
  using assms by (simp add: verify_response_def gate_case)

lemma verify_raises:
  assumes "\<forall>t0. challenge_attempts s ip = Some t0 \<longrightarrow> 2000000 \<le> now - t0"
    and "truthy (dict_get data ''challenge_id'' JNull)"
    and "select_by_id (challenges s) (dict_get data ''challenge_id'' JNull) = Inl e"
  shows "verify_response data ip now s =
     (Inl e, s\<lparr>challenge_attempts := (challenge_attempts s)(ip \<mapsto> now)\<rparr>)"
  using assms by (simp add: verify_response_def gate_case)

lemma verify_invalid:
  assumes "\<forall>t0. challenge_attempts s ip = Some t0 \<longrightarrow> 2000000 \<le> now - t0"
    and "truthy (dict_get data ''challenge_id'' JNull)"
    and "select_by_id (challenges s) (dict_get data ''challenge_id'' JNull) = Inr None"
  shows "verify_response data ip now s =
     (Inr [(''success'', JBool False), (''error'', JStr ''Invalid challenge'')],
      s\<lparr>challenge_attempts := (challenge_attempts s)(ip \<mapsto> now)\<rparr>)"
  using assms by (simp add: verify_response_def gate_case)

lemma verify_found:
  assumes "\<forall>t0. challenge_attempts s ip = Some t0 \<longrightarrow> 2000000 \<le> now - t0"
    and "truthy (dict_get data ''challenge_id'' JNull)"
    and "select_by_id (challenges s) (dict_get data ''challenge_id'' JNull) = Inr (Some (k, row))"
  shows "verify_response data ip now s =
     (let user_clean = filter isdigit (py_str (dict_get data ''response'' (JStr '''')));
          sequence_clean = filter isdigit (sequence row);
          success = (user_clean = sequence_clean)
      in (Inr [(''success'', JBool success),
               (''message'', JStr (if success then ''Access granted'' else ''Access denied'')),
               (''expected'', JStr sequence_clean),
               (''provided'', JStr user_clean)],
          s\<lparr>challenge_attempts := (challenge_attempts s)(ip \<mapsto> now),
            challenges := (challenges s)(k \<mapsto>
               row\<lparr>attempts := attempts row + 1, solved := (success \<or> solved row)\<rparr>)\<rparr>))"
  using assms by (simp add: verify_response_def gate_case Let_def)

text \<open>Every call falls in one of five cases.\<close>

lemma verify_cases:
  obtains (limited) t0 where "challenge_attempts s ip = Some t0" "now - t0 < 2000000"
  | (missing) "\<forall>t0. challenge_attempts s ip = Some t0 \<longrightarrow> 2000000 \<le> now - t0"
      "\<not> truthy (dict_get data ''challenge_id'' JNull)"
  | (raises) e where "\<forall>t0. challenge_attempts s ip = Some t0 \<longrightarrow> 2000000 \<le> now - t0"
      "truthy (dict_get data ''challenge_id'' JNull)"
      "select_by_id (challenges s) (dict_get data ''challenge_id'' JNull) = Inl e"
  | (invalid) "\<forall>t0. challenge_attempts s ip = Some t0 \<longrightarrow> 2000000 \<le> now - t0"
      "truthy (dict_get data ''challenge_id'' JNull)"
      "select_by_id (challenges s) (dict_get data ''challenge_id'' JNull) = Inr None"
  | (found) k row where "\<forall>t0. challenge_attempts s ip = Some t0 \<longrightarrow> 2000000 \<le> now - t0"
      "truthy (dict_get data ''challenge_id'' JNull)"
      "select_by_id (challenges s) (dict_get data ''challenge_id'' JNull) = Inr (Some (k, row))"
proof (cases "\<forall>t0. challenge_attempts s ip = Some t0 \<longrightarrow> 2000000 \<le> now - t0")
  case False
  then show ?thesis using limited by (auto simp: not_le)
next
  case gate: True
  show ?thesis
  proof (cases "truthy (dict_get data ''challenge_id'' JNull)")
    case False
    with gate show ?thesis by (rule missing)
  next
    case tr: True
    show ?thesis
    proof (cases "select_by_id (challenges s) (dict_get data ''challenge_id'' JNull)")
      case (Inl e)
      with gate tr show ?thesis by (rule raises)
    next
      case (Inr r)
      show ?thesis
      proof (cases r)
        case None
        with gate tr Inr show ?thesis by (auto intro: invalid)
      next
        case (Some p)
        with gate tr Inr show ?thesis by (cases p) (auto intro: found)
      qed
    qed
  qed
qed

text \<open>What a verify call does to a row that is there.\<close>

lemma verify_row:
  assumes "challenges s cid = Some r"
  shows "\<exists>r'. challenges (snd (verify_response data ip now s)) cid = Some r'
            \<and> sequence r' = sequence r \<and> attempts r \<le> attempts r'
            \<and> (solved r \<longrightarrow> solved r')"
proof (cases rule: verify_cases[where s=s and ip=ip and now=now and data=data])
  case (limited t0)
  then show ?thesis using assms by (simp add: verify_limited)
next
  case missing
  then show ?thesis using assms by (simp add: verify_missing)
next
  case (raises e)
  then show ?thesis using assms by (simp add: verify_raises)
next
  case invalid
  then show ?thesis using assms by (simp add: verify_invalid)
next
  case (found k row)
  from found(3) have "challenges s k = Some row" by (rule select_by_id_Some)
  with found assms show ?thesis by (auto simp: verify_found Let_def)
qed

lemma verify_dom:
  "dom (challenges (snd (verify_response data ip now s))) = dom (challenges s)"
proof (cases rule: verify_cases[where s=s and ip=ip and now=now and data=data])
  case (found k row)
  from found(3) have "challenges s k = Some row" by (rule select_by_id_Some)
  with found show ?thesis by (auto simp: verify_found Let_def)
qed (simp_all add: verify_limited verify_missing verify_raises verify_invalid)

lemma verify_loader:
  "audio_files (snd (verify_response data ip now s)) = audio_files s
   \<and> text_labels (snd (verify_response data ip now s)) = text_labels s
   \<and> use_dataset (snd (verify_response data ip now s)) = use_dataset s"
  by (cases rule: verify_cases[where s=s and ip=ip and now=now and data=data])
     (simp_all add: verify_limited verify_missing verify_raises verify_invalid verify_found Let_def)

subsection \<open>The generators\<close>

lemma decimal_isdigit: "decimal sq \<Longrightarrow> filter isdigit sq = sq"
  by (rule filter_True) (auto simp: decimal_def isdigit_def)

lemma length_choices: "length (fst (choices population k g)) = k"
  by (simp add: choices_def)

lemma decimal_choices: "decimal (fst (choices ''0123456789'' k g))"
proof -
  have "''0123456789'' ! (n mod 10) \<in> set ''0123456789''" for n :: nat
    by (rule nth_mem) simp
  then show ?thesis
    unfolding decimal_def choices_def by (auto simp del: list.set)
qed

lemma randint_range:
  assumes "a \<le> b"
  shows "a \<le> fst (randint a b g) \<and> fst (randint a b g) \<le> b"
proof -
  have "0 < b - a + 1" using assms by simp
  then have "0 \<le> int (g 0) mod (b - a + 1)" "int (g 0) mod (b - a + 1) < b - a + 1"
    by (rule pos_mod_sign, rule pos_mod_bound)
  then show ?thesis by (simp add: randint_def)
qed

lemma load_loop_inv:
  assumes "load_loop n i files labels g = ((files', labels'), g')"
    and "length files = length labels"
    and "\<forall>sq \<in> set labels. decimal sq \<and> 3 \<le> length sq \<and> length sq \<le> 6"
  shows "length files' = length labels' \<and> length labels' = length labels + n
       \<and> (\<forall>sq \<in> set labels'. decimal sq \<and> 3 \<le> length sq \<and> length sq \<le> 6)"
  using assms
proof (induction n arbitrary: i files labels g)
  case 0
  then show ?case by simp
next
  case (Suc n)
  obtain k g1 where k: "randint 3 6 g = (k, g1)" by (cases "randint 3 6 g")
  obtain sq g2 where sq: "choices ''0123456789'' (nat k) g1 = (sq, g2)"
    by (cases "choices ''0123456789'' (nat k) g1")
  have kr: "3 \<le> k \<and> k \<le> 6" using randint_range[of 3 6 g] k by simp
  have sqd: "decimal sq" using decimal_choices[of "nat k" g1] sq by simp
  have sql: "length sq = nat k" using length_choices[of "''0123456789''" "nat k" g1] sq by simp
  from Suc.prems(1) k sq
  have step: "load_loop n (Suc i)
           (files @ [''/simulated/audio/audio_''
                    @ replicate (3 - length (str_nat i)) (CHR ''0'') @ str_nat i @ ''.wav''])
           (labels @ [sq]) g2 = ((files', labels'), g')"
    by simp
  have "length files' = length labels' \<and> length labels' = length (labels @ [sq]) + n
       \<and> (\<forall>sq \<in> set labels'. decimal sq \<and> 3 \<le> length sq \<and> length sq \<le> 6)"
  proof (rule Suc.IH[OF step])
    show "length (files @ [''/simulated/audio/audio_''
                    @ replicate (3 - length (str_nat i)) (CHR ''0'') @ str_nat i @ ''.wav''])
          = length (labels @ [sq])"
      using Suc.prems(2) by simp
    show "\<forall>sq \<in> set (labels @ [sq]). decimal sq \<and> 3 \<le> length sq \<and> length sq \<le> 6"
      using Suc.prems(3) kr sqd sql by auto
  qed
  then show ?case by simp
qed

lemma load_audio_samples_ok:
  assumes "load_audio_samples n s g = (s', g')"
  shows "dataset_ok s' \<and> length (text_labels s') = n
       \<and> challenges s' = challenges s \<and> challenge_attempts s' = challenge_attempts s
       \<and> use_dataset s' = use_dataset s"
proof -
  obtain files labels g1 where l: "load_loop n 0 [] [] g = ((files, labels), g1)"
    by (metis surj_pair)
  from load_loop_inv[OF l] have "length files = length labels \<and> length labels = n
      \<and> (\<forall>sq \<in> set labels. decimal sq \<and> 3 \<le> length sq \<and> length sq \<le> 6)" by simp
  moreover from assms l have "s' = s\<lparr>audio_files := files, text_labels := labels\<rparr>"
    by (simp add: load_audio_samples_def)
  ultimately show ?thesis by (simp add: dataset_ok_def)
qed

lemma initial_state_ok:
  "dataset_ok (initial_state g) \<and> challenges (initial_state g) = Map.empty
   \<and> challenge_attempts (initial_state g) = Map.empty \<and> use_dataset (initial_state g)
   \<and> length (text_labels (initial_state g)) = 100"
proof -
  obtain s2 g1 where l: "load_audio_samples 100 (fresh_state\<lparr>loader_use_dataset := True\<rparr>) g = (s2, g1)"
    by (metis surj_pair)
  from load_audio_samples_ok[OF l] l show ?thesis
    by (simp add: initial_state_def initialize_dataset_def dataset_ok_def fresh_state_def)
qed

lemma synthetic_challenge_shape:
  assumes "generate_synthetic_challenge g = (ch, g')"
  shows "\<exists>sq. ch = [(''type'', ''synthetic''), (''sequence'', sq),
                     (''message'', ''Please speak or type the sequence: '' @ sq)]
             \<and> sq = fst (choices ''0123456789'' 4 g) \<and> length sq = 4 \<and> decimal sq"
proof -
  obtain sq g1 where c: "choices ''0123456789'' 4 g = (sq, g1)" by (metis surj_pair)
  have "length sq = 4" "decimal sq"
    using length_choices[of "''0123456789''" 4 g] decimal_choices[of 4 g] c by simp_all
  with assms c show ?thesis by (simp add: generate_synthetic_challenge_def)
qed

lemma get_random_captcha_ok:
  assumes ok: "dataset_ok s" and run: "get_random_captcha s g = (r, s1, g1)"
  shows "dataset_ok s1 \<and> challenges s1 = challenges s
       \<and> challenge_attempts s1 = challenge_attempts s \<and> use_dataset s1 = use_dataset s
       \<and> (\<exists>p t. r = Inr (Some (p, t)) \<and> t \<in> set (text_labels s1))"
proof -
  obtain s0 g0 where pre: "(if audio_files s = [] then load_audio_samples 50 s g else (s, g)) = (s0, g0)"
    by (metis surj_pair)
  have s0: "dataset_ok s0 \<and> challenges s0 = challenges s
       \<and> challenge_attempts s0 = challenge_attempts s \<and> use_dataset s0 = use_dataset s
       \<and> audio_files s0 \<noteq> []"
  proof (cases "audio_files s = []")
    case True
    with pre have "load_audio_samples 50 s g = (s0, g0)" by simp
    from load_audio_samples_ok[OF this] show ?thesis by (auto simp: dataset_ok_def)
  next
    case False
    with pre ok show ?thesis by simp
  qed
  obtain idx g2 where idx: "randint 0 (int (length (audio_files s0)) - 1) g0 = (idx, g2)"
    by (metis surj_pair)
  have len: "0 < length (audio_files s0)" "length (text_labels s0) = length (audio_files s0)"
    using s0 by (auto simp: dataset_ok_def)
  then have "0 \<le> idx \<and> idx \<le> int (length (audio_files s0)) - 1"
    using randint_range[of 0 "int (length (audio_files s0)) - 1" g0] idx by simp
  with len have lt: "nat idx < length (text_labels s0)" by linarith
  from run pre idx lt s0
  have "r = Inr (Some (audio_files s0 ! nat idx, text_labels s0 ! nat idx))" "s1 = s0"
    by (auto simp: get_random_captcha_def)
  with s0 lt show ?thesis by simp
qed

lemma get_random_captcha_store:
  assumes "get_random_captcha s g = (r, s1, g1)"
  shows "challenges s1 = challenges s \<and> challenge_attempts s1 = challenge_attempts s"
proof -
  obtain s0 g0 where pre: "(if audio_files s = [] then load_audio_samples 50 s g else (s, g)) = (s0, g0)"
    by (metis surj_pair)
  have "challenges s0 = challenges s \<and> challenge_attempts s0 = challenge_attempts s"
  proof (cases "audio_files s = []")
    case True
    with pre have "load_audio_samples 50 s g = (s0, g0)" by simp
    from load_audio_samples_ok[OF this] show ?thesis by simp
  next
    case False
    with pre show ?thesis by simp
  qed
  moreover from assms pre have "s1 = s0"
    by (auto simp: get_random_captcha_def Let_def split: if_splits prod.splits)
  ultimately show ?thesis by simp
qed

lemma from_dataset_ok:
  assumes ok: "dataset_ok s" and run: "generate_challenge_from_dataset s g = (r, s1, g1)"
  shows "dataset_ok s1 \<and> challenges s1 = challenges s
       \<and> challenge_attempts s1 = challenge_attempts s \<and> use_dataset s1 = use_dataset s
       \<and> (\<exists>ch. r = Inr ch \<and>
            ((\<exists>t. dataset_dict ch t \<and> t \<in> set (text_labels s1))
             \<or> (\<exists>sq. synthetic_dict ch sq \<and> length sq = 4 \<and> decimal sq)))"
proof (cases "use_dataset s")
  case False
  obtain ch g' where c: "generate_synthetic_challenge g = (ch, g')" by (metis surj_pair)
  from synthetic_challenge_shape[OF c] run c False ok show ?thesis
    by (auto simp: generate_challenge_from_dataset_def synthetic_dict_def)
next
  case True
  obtain r0 s0 g0 where c: "get_random_captcha s g = (r0, s0, g0)" by (metis prod_cases3)
  from get_random_captcha_ok[OF ok c] obtain p t where
    s0: "dataset_ok s0" "challenges s0 = challenges s" "challenge_attempts s0 = challenge_attempts s"
        "use_dataset s0 = use_dataset s" and r0: "r0 = Inr (Some (p, t))" and t: "t \<in> set (text_labels s0)"
    by blast
  show ?thesis
  proof (cases "p \<noteq> [] \<and> t \<noteq> []")
    case True
    with run \<open>use_dataset s\<close> c r0 have "s1 = s0"
      "r = Inr [(''type'', ''dataset_audio''), (''audio_path'', p), (''true_text'', t),
                 (''message'', ''Listen to the audio and type what you hear. The sequence has ''
                             @ str_nat (length t) @ '' digits.'')]"
      by (simp_all add: generate_challenge_from_dataset_def)
    with s0 t show ?thesis by (auto simp: dataset_dict_def)
  next
    case False
    obtain ch g' where d: "generate_synthetic_challenge g0 = (ch, g')" by (metis surj_pair)
    from False run \<open>use_dataset s\<close> c r0 d have "s1 = s0" "r = Inr ch"
      by (auto simp: generate_challenge_from_dataset_def)
    with synthetic_challenge_shape[OF d] s0 show ?thesis by (auto simp: synthetic_dict_def)
  qed
qed

lemma from_dataset_store:
  assumes "generate_challenge_from_dataset s g = (r, s1, g1)"
  shows "challenges s1 = challenges s \<and> challenge_attempts s1 = challenge_attempts s"
proof (cases "use_dataset s")
  case False
  with assms show ?thesis
    by (auto simp: generate_challenge_from_dataset_def split: prod.splits)
next
  case True
  obtain r0 s0 g0 where c: "get_random_captcha s g = (r0, s0, g0)" by (metis prod_cases3)
  from assms True c have "s1 = s0"
    by (auto simp: generate_challenge_from_dataset_def split: prod.splits sum.splits option.splits if_splits)
  with get_random_captcha_store[OF c] show ?thesis by simp
qed

subsection \<open>The creation handlers, step by step\<close>

lemma insert_challenge_cases:
  "insert_challenge cid sq ts ty tbl = Inl e \<Longrightarrow> e = IntegrityError \<and> cid \<in> dom tbl"
  "insert_challenge cid sq ts ty tbl = Inr tbl' \<Longrightarrow>
     cid \<notin> dom tbl \<and> tbl' = tbl(cid \<mapsto> \<lparr>sequence = sq, created_at = ts, attempts = 0,
                                        solved = False, challenge_type = ty\<rparr>)"
  by (auto simp: insert_challenge_def split: if_splits)

lemma chosen_store:
  assumes "chosen data g s = (r, s1, g1)"
  shows "challenges s1 = challenges s \<and> challenge_attempts s1 = challenge_attempts s"
proof (cases "truthy (dict_get data ''use_dataset'' (JBool True)) \<and> use_dataset s")
  case True
  with assms have "generate_challenge_from_dataset s g = (r, s1, g1)" by (simp add: chosen_def)
  then show ?thesis by (rule from_dataset_store)
next
  case False
  with assms show ?thesis by (auto simp: chosen_def split: prod.splits)
qed

lemma chosen_ok:
  assumes ok: "dataset_ok s" and c: "chosen data g s = (r, s1, g1)"
  shows "dataset_ok s1 \<and> use_dataset s1 = use_dataset s
       \<and> (\<exists>ch. r = Inr ch \<and>
            ((\<exists>t. dataset_dict ch t \<and> t \<in> set (text_labels s1))
             \<or> (\<exists>sq. synthetic_dict ch sq \<and> length sq = 4 \<and> decimal sq)))"
proof (cases "truthy (dict_get data ''use_dataset'' (JBool True)) \<and> use_dataset s")
  case True
  with c have "generate_challenge_from_dataset s g = (r, s1, g1)" by (simp add: chosen_def)
  from from_dataset_ok[OF ok this] show ?thesis by simp
next
  case False
  obtain ch g' where d: "generate_synthetic_challenge g = (ch, g')" by (metis surj_pair)
  from False c d have "r = Inr ch" "s1 = s" by (auto simp: chosen_def)
  with synthetic_challenge_shape[OF d] ok show ?thesis by (auto simp: synthetic_dict_def)
qed

lemma enhanced_unfold:
  assumes "chosen data g s = (r, s1, g1)"
  shows "enhanced_generate_challenge digest data now now' g s =
      (case r of
        Inl e \<Rightarrow> (Inl e, s1)
      | Inr ch \<Rightarrow>
          let challenge_text = dict_get ch ''true_text'' (dict_get ch ''sequence'' '''');
              challenge_id = take 16 (digest challenge_text now)
          in
          (case dict_index ch ''type'' of
             Inl e \<Rightarrow> (Inl e, s1)
           | Inr ty \<Rightarrow>
               (case insert_challenge challenge_id challenge_text now' ty (challenges s1) of
                  Inl e \<Rightarrow> (Inl e, s1)
                | Inr tbl \<Rightarrow>
                    let s2 = s1\<lparr>challenges := tbl\<rparr>
                    in
                    (case dict_index ch ''message'' of
                       Inl e \<Rightarrow> (Inl e, s2)
                     | Inr msg \<Rightarrow>
                         let response_data =
                               [(''challenge_id'', JStr challenge_id),
                                (''challenge_type'', JStr ty),
                                (''message'', JStr msg),
                                (''sequence_length'', JInt (int (length challenge_text))),
                                (''audio_support'', JBool True),
                                (''audio_type'', JStr ''browser_tts''),
                                (''accessible'', JBool True)]
                         in
                         if ty = ''dataset_audio''
                         then (Inr (AList.update ''sequence'' (JStr challenge_text)
                                     (AList.update ''note'' (JStr ''Audio challenge from dataset'')
                                       (AList.update ''audio_type'' (JStr ''pre_recorded'')
                                         (AList.update ''audio_url''
                                            (JStr (''/api/audio/'' @ challenge_id))
                                            response_data)))), s2)
                         else (Inr (AList.update ''sequence'' (JStr challenge_text)
                                     (AList.update ''note''
                                        (JStr ''Synthetic text challenge with browser text-to-speech'')
                                        response_data)), s2)))))"
  using assms unfolding enhanced_generate_challenge_def chosen_def Let_def by simp

text \<open>What a creation does to the table in any state, and the reply it gives.\<close>

lemma enhanced_effect:
  assumes run: "enhanced_generate_challenge digest data now now' g s = (rep, s')"
  shows "challenge_attempts s' = challenge_attempts s \<and>
     (challenges s' = challenges s \<and> (\<exists>e. rep = Inl e) \<or>
      (\<exists>cid sq ty. cid \<notin> dom (challenges s)
         \<and> challenges s' = (challenges s)(cid \<mapsto> \<lparr>sequence = sq, created_at = now',
                attempts = 0, solved = False, challenge_type = ty\<rparr>)
         \<and> (\<exists>ch s1 g1. chosen data g s = (Inr ch, s1, g1)
               \<and> sq = dict_get ch ''true_text'' (dict_get ch ''sequence'' ''''))
         \<and> (rep = Inl KeyError \<or>
            (\<exists>resp. rep = Inr resp \<and> map_of resp ''challenge_id'' = Some (JStr cid)
               \<and> map_of resp ''sequence'' = Some (JStr sq)
               \<and> map_of resp ''challenge_type'' = Some (JStr ty)))))"
proof -
  obtain r s1 g1 where c: "chosen data g s = (r, s1, g1)" by (metis prod_cases3)
  note st = chosen_store[OF c]
  note u = enhanced_unfold[OF c, of digest now now']
  show ?thesis
  proof (cases r)
    case (Inl e)
    with run u st show ?thesis by auto
  next
    case (Inr ch)
    let ?sq = "dict_get ch ''true_text'' (dict_get ch ''sequence'' '''')"
    let ?cid = "take 16 (digest ?sq now)"
    show ?thesis
    proof (cases "dict_index ch ''type''")
      case (Inl e)
      with run u st Inr show ?thesis by (auto simp: Let_def)
    next
      case ty: (Inr ty)
      show ?thesis
      proof (cases "insert_challenge ?cid ?sq now' ty (challenges s1)")
        case (Inl e)
        with run u st Inr ty show ?thesis by (auto simp: Let_def)
      next
        case tbl: (Inr tbl)
        note ins = insert_challenge_cases(2)[OF tbl]
        have B: "?cid \<notin> dom (challenges s)" using ins st by simp
        have s': "s' = s1\<lparr>challenges := tbl\<rparr>"
          using run u Inr ty tbl
          by (cases "dict_index ch ''message''"; cases "ty = ''dataset_audio''")
             (auto simp: Let_def)
        have A: "challenge_attempts s' = challenge_attempts s" using s' st by simp
        have C: "challenges s' = (challenges s)(?cid \<mapsto> \<lparr>sequence = ?sq, created_at = now',
                attempts = 0, solved = False, challenge_type = ty\<rparr>)"
          using s' ins st by simp
        have D: "rep = Inl KeyError \<or>
            (\<exists>resp. rep = Inr resp \<and> map_of resp ''challenge_id'' = Some (JStr ?cid)
               \<and> map_of resp ''sequence'' = Some (JStr ?sq)
               \<and> map_of resp ''challenge_type'' = Some (JStr ty))"
        proof (cases "dict_index ch ''message''")
          case (Inl e)
          then have "e = KeyError" by (auto simp: dict_index_def split: option.splits)
          with Inl run u Inr ty tbl show ?thesis by (auto simp: Let_def)
        next
          case msg: (Inr msg)
          with run u Inr ty tbl show ?thesis
            by (cases "ty = ''dataset_audio''") (auto simp: Let_def)
        qed
        have E: "\<exists>ch s1 g1. chosen data g s = (Inr ch, s1, g1)
               \<and> ?sq = dict_get ch ''true_text'' (dict_get ch ''sequence'' '''')"
          using c Inr by simp
        from A B C D E show ?thesis by blast
      qed
    qed
  qed
qed

lemma dataset_dict_reads:
  assumes "dataset_dict ch t"
  shows "dict_get ch ''true_text'' (dict_get ch ''sequence'' '''') = t"
    and "dict_index ch ''type'' = Inr ''dataset_audio''"
    and "\<exists>msg. dict_index ch ''message'' = Inr msg"
  using assms by (auto simp: dataset_dict_def dict_get_def dict_index_def)

lemma synthetic_dict_reads:
  assumes "synthetic_dict ch sq"
  shows "dict_get ch ''true_text'' (dict_get ch ''sequence'' '''') = sq"
    and "dict_index ch ''type'' = Inr ''synthetic''"
    and "\<exists>msg. dict_index ch ''message'' = Inr msg"
  using assms by (auto simp: synthetic_dict_def dict_get_def dict_index_def)

lemma enhanced_digits:
  assumes ok: "dataset_ok s"
    and run: "enhanced_generate_challenge digest data now now' g s = (rep, s')"
  shows "dataset_ok s' \<and> use_dataset s' = use_dataset s \<and>
     (\<exists>sq ty. decimal sq
        \<and> (ty = ''dataset_audio'' \<and> 3 \<le> length sq \<and> length sq \<le> 6
           \<or> ty = ''synthetic'' \<and> length sq = 4)
        \<and> (challenges s' = challenges s \<and> rep = Inl IntegrityError
             \<and> take 16 (digest sq now) \<in> dom (challenges s)
           \<or> challenges s' = (challenges s)(take 16 (digest sq now) \<mapsto>
                \<lparr>sequence = sq, created_at = now', attempts = 0, solved = False,
                 challenge_type = ty\<rparr>)
             \<and> (\<exists>resp. rep = Inr resp \<and> map_of resp ''sequence'' = Some (JStr sq)
                   \<and> map_of resp ''challenge_type'' = Some (JStr ty))))"
proof -
  obtain r s1 g1 where c: "chosen data g s = (r, s1, g1)" by (metis prod_cases3)
  note st = chosen_store[OF c]
  note u = enhanced_unfold[OF c, of digest now now']
  from chosen_ok[OF ok c] obtain ch where ok1: "dataset_ok s1" and ud: "use_dataset s1 = use_dataset s"
    and r: "r = Inr ch"
    and shape: "(\<exists>t. dataset_dict ch t \<and> t \<in> set (text_labels s1))
             \<or> (\<exists>sq. synthetic_dict ch sq \<and> length sq = 4 \<and> decimal sq)"
    by blast
  from shape obtain sq ty msg where
    rd: "dict_get ch ''true_text'' (dict_get ch ''sequence'' '''') = sq"
        "dict_index ch ''type'' = Inr ty" "dict_index ch ''message'' = Inr msg"
    and dec: "decimal sq"
    and len: "ty = ''dataset_audio'' \<and> 3 \<le> length sq \<and> length sq \<le> 6
           \<or> ty = ''synthetic'' \<and> length sq = 4"
  proof
    assume "\<exists>t. dataset_dict ch t \<and> t \<in> set (text_labels s1)"
    then obtain t where t: "dataset_dict ch t" "t \<in> set (text_labels s1)" by blast
    from t(2) ok1 have "decimal t \<and> 3 \<le> length t \<and> length t \<le> 6" by (simp add: dataset_ok_def)
    with dataset_dict_reads[OF t(1)] that show thesis by blast
  next
    assume "\<exists>sq. synthetic_dict ch sq \<and> length sq = 4 \<and> decimal sq"
    then obtain q where q: "synthetic_dict ch q" "length q = 4" "decimal q" by blast
    with synthetic_dict_reads[OF q(1)] that show thesis by blast
  qed
  let ?cid = "take 16 (digest sq now)"
  let ?row = "\<lparr>sequence = sq, created_at = now', attempts = 0, solved = False, challenge_type = ty\<rparr>"
  have fin: "challenges s' = challenges s \<and> rep = Inl IntegrityError \<and> s' = s1
             \<and> ?cid \<in> dom (challenges s)
           \<or> challenges s' = (challenges s)(?cid \<mapsto> ?row) \<and> s' = s1\<lparr>challenges := (challenges s)(?cid \<mapsto> ?row)\<rparr>
             \<and> (\<exists>resp. rep = Inr resp \<and> map_of resp ''sequence'' = Some (JStr sq)
                   \<and> map_of resp ''challenge_type'' = Some (JStr ty))"
  proof (cases "insert_challenge ?cid sq now' ty (challenges s1)")
    case (Inl e)
    with insert_challenge_cases(1)[OF Inl] run u r rd st show ?thesis by (auto simp: Let_def)
  next
    case (Inr tbl)
    with insert_challenge_cases(2)[OF Inr] run u r rd st show ?thesis
      by (cases "ty = ''dataset_audio''") (auto simp: Let_def)
  qed
  then have "dataset_ok s'" "use_dataset s' = use_dataset s"
    using ok1 ud by (auto simp: dataset_ok_def)
  with fin dec len show ?thesis by blast
qed

lemma alternative_effect:
  assumes "alternative_challenge digest now now' g s = (rep, s')"
  shows "\<exists>sq. sq = fst (choices ''0123456789'' 3 g) \<and> length sq = 3 \<and> decimal sq \<and>
     (rep = Inl IntegrityError \<and> s' = s \<and> take 16 (digest sq now) \<in> dom (challenges s)
      \<or> take 16 (digest sq now) \<notin> dom (challenges s)
        \<and> rep = Inr [(''challenge_id'', JStr (take 16 (digest sq now))),
                (''sequence'', JStr sq),
                (''message'', JStr (''Alternative challenge: Please type '' @ sq)),
                (''type'', JStr ''alternative_digits''),
                (''accessibility_note'', JStr ''Simplified challenge with shorter sequence'')]
        \<and> s' = s\<lparr>challenges := (challenges s)(take 16 (digest sq now) \<mapsto>
                \<lparr>sequence = sq, created_at = now', attempts = 0, solved = False,
                 challenge_type = ''alternative''\<rparr>)\<rparr>)"
proof -
  define sq where "sq = fst (choices ''0123456789'' 3 g)"
  have c: "choices ''0123456789'' 3 g = (sq, snd (choices ''0123456789'' 3 g))"
    by (simp add: sq_def)
  have p: "length sq = 3" "decimal sq"
    unfolding sq_def by (rule length_choices, rule decimal_choices)
  have u: "alternative_challenge digest now now' g s =
     (case insert_challenge (take 16 (digest sq now)) sq now' ''alternative'' (challenges s) of
        Inl e \<Rightarrow> (Inl e, s)
      | Inr tbl \<Rightarrow>
          (Inr [(''challenge_id'', JStr (take 16 (digest sq now))),
                (''sequence'', JStr sq),
                (''message'', JStr (''Alternative challenge: Please type '' @ sq)),
                (''type'', JStr ''alternative_digits''),
                (''accessibility_note'', JStr ''Simplified challenge with shorter sequence'')],
           s\<lparr>challenges := tbl\<rparr>))"
    unfolding alternative_challenge_def Let_def by (subst c) simp
  have "rep = Inl IntegrityError \<and> s' = s \<and> take 16 (digest sq now) \<in> dom (challenges s)
      \<or> take 16 (digest sq now) \<notin> dom (challenges s)
        \<and> rep = Inr [(''challenge_id'', JStr (take 16 (digest sq now))),
                (''sequence'', JStr sq),
                (''message'', JStr (''Alternative challenge: Please type '' @ sq)),
                (''type'', JStr ''alternative_digits''),
                (''accessibility_note'', JStr ''Simplified challenge with shorter sequence'')]
        \<and> s' = s\<lparr>challenges := (challenges s)(take 16 (digest sq now) \<mapsto>
                \<lparr>sequence = sq, created_at = now', attempts = 0, solved = False,
                 challenge_type = ''alternative''\<rparr>)\<rparr>"
  proof (cases "take 16 (digest sq now) \<in> dom (challenges s)")
    case True
    with assms show ?thesis unfolding u by (simp add: insert_challenge_def)
  next
    case False
    with assms show ?thesis unfolding u by (auto simp: insert_challenge_def)
  qed
  with p show ?thesis unfolding sq_def by blast
qed

subsection \<open>Runs\<close>

lemma handle_row:
  assumes "challenges s cid = Some r"
  shows "\<exists>r'. challenges (snd (handle digest rq s)) cid = Some r'
            \<and> sequence r' = sequence r \<and> attempts r \<le> attempts r'
            \<and> (solved r \<longrightarrow> solved r')"
proof (cases rq)
  case (Generate data now now' g)
  obtain rep s' where run: "enhanced_generate_challenge digest data now now' g s = (rep, s')"
    by (metis surj_pair)
  from enhanced_effect[OF run] consider "challenges s' = challenges s"
    | cid' row where "cid' \<notin> dom (challenges s)" "challenges s' = (challenges s)(cid' \<mapsto> row)"
    by blast
  then have "challenges s' cid = Some r"
  proof cases
    case 1
    with assms show ?thesis by simp
  next
    case 2
    with assms have "cid \<noteq> cid'" by auto
    with 2 assms show ?thesis by simp
  qed
  with Generate run show ?thesis by simp
next
  case (Alternative now now' g)
  obtain rep s' where run: "alternative_challenge digest now now' g s = (rep, s')"
    by (metis surj_pair)
  from alternative_effect[OF run] consider "s' = s"
    | cid' row where "cid' \<notin> dom (challenges s)" "s' = s\<lparr>challenges := (challenges s)(cid' \<mapsto> row)\<rparr>"
    by blast
  then have "challenges s' cid = Some r"
  proof cases
    case 1
    with assms show ?thesis by simp
  next
    case 2
    with assms have "cid \<noteq> cid'" by auto
    with 2 assms show ?thesis by simp
  qed
  with Alternative run show ?thesis by simp
next
  case (Verify data ip now)
  with verify_row[OF assms, of data ip now] show ?thesis by simp
qed

lemma run_append: "run digest (rs @ rs') s = run digest rs' (run digest rs s)"
  by (induction rs arbitrary: s) simp_all

lemma run_row:
  assumes "challenges s cid = Some r"
  shows "\<exists>r'. challenges (run digest rs s) cid = Some r'
            \<and> sequence r' = sequence r \<and> attempts r \<le> attempts r'
            \<and> (solved r \<longrightarrow> solved r')"
  using assms
proof (induction rs arbitrary: s r)
  case Nil
  then show ?case by simp
next
  case (Cons rq rs)
  from handle_row[OF Cons.prems, of digest rq] obtain r1 where
    r1: "challenges (snd (handle digest rq s)) cid = Some r1" "sequence r1 = sequence r"
        "attempts r \<le> attempts r1" "solved r \<longrightarrow> solved r1" by blast
  from Cons.IH[OF r1(1)] obtain r' where
    "challenges (run digest rs (snd (handle digest rq s))) cid = Some r'" "sequence r' = sequence r1"
    "attempts r1 \<le> attempts r'" "solved r1 \<longrightarrow> solved r'" by blast
  with r1 show ?case by auto
qed

lemma handle_inv:
  assumes "dataset_ok s" and "store_ok s"
  shows "dataset_ok (snd (handle digest rq s)) \<and> store_ok (snd (handle digest rq s))"
proof (cases rq)
  case (Generate data now now' g)
  obtain rep s' where run: "enhanced_generate_challenge digest data now now' g s = (rep, s')"
    by (metis surj_pair)
  from enhanced_digits[OF assms(1) run] assms(2) have "dataset_ok s' \<and> store_ok s'"
    by (auto simp: store_ok_def split: if_splits)
  with Generate run show ?thesis by simp
next
  case (Alternative now now' g)
  obtain rep s' where run: "alternative_challenge digest now now' g s = (rep, s')"
    by (metis surj_pair)
  from alternative_effect[OF run] assms have "dataset_ok s' \<and> store_ok s'"
    by (auto simp: store_ok_def dataset_ok_def split: if_splits)
  with Alternative run show ?thesis by simp
next
  case (Verify data ip now)
  have "store_ok (snd (verify_response data ip now s))"
    unfolding store_ok_def
  proof (intro allI impI)
    fix cid row assume a: "challenges (snd (verify_response data ip now s)) cid = Some row"
    then have "cid \<in> dom (challenges s)" using verify_dom[of data ip now s] by auto
    then obtain r where r: "challenges s cid = Some r" by auto
    from verify_row[OF r, of data ip now] a have "sequence row = sequence r" by auto
    with r assms(2) show "decimal (sequence row) \<and> 3 \<le> length (sequence row) \<and> length (sequence row) \<le> 6"
      by (auto simp: store_ok_def)
  qed
  moreover have "dataset_ok (snd (verify_response data ip now s))"
    using assms(1) verify_loader[of data ip now s] by (simp add: dataset_ok_def)
  ultimately show ?thesis using Verify by simp
qed

lemma run_inv:
  assumes "dataset_ok s" and "store_ok s"
  shows "dataset_ok (run digest rs s) \<and> store_ok (run digest rs s)"
  using assms
proof (induction rs arbitrary: s)
  case Nil
  then show ?case by simp
next
  case (Cons rq rs)
  from handle_inv[OF Cons.prems, of digest rq] Cons.IH show ?case by simp
qed

lemma reachable_inv:
  "dataset_ok (run digest rs (initial_state g0)) \<and> store_ok (run digest rs (initial_state g0))"
proof (rule run_inv)
  show "dataset_ok (initial_state g0)" using initial_state_ok by simp
  show "store_ok (initial_state g0)" using initial_state_ok[of g0] by (simp add: store_ok_def)
qed

subsection \<open>The mode of a generated challenge\<close>

lemma load_loop_paths:
  assumes "load_loop n i files labels g = ((files', labels'), g')"
    and "\<forall>p \<in> set files. p \<noteq> []"
  shows "\<forall>p \<in> set files'. p \<noteq> []"
  using assms
proof (induction n arbitrary: i files labels g)
  case 0
  then show ?case by simp
next
  case (Suc n)
  obtain k g1 where k: "randint 3 6 g = (k, g1)" by (cases "randint 3 6 g")
  obtain sq g2 where sq: "choices ''0123456789'' (nat k) g1 = (sq, g2)"
    by (cases "choices ''0123456789'' (nat k) g1")
  from Suc.prems(1) k sq
  have step: "load_loop n (Suc i)
           (files @ [''/simulated/audio/audio_''
                    @ replicate (3 - length (str_nat i)) (CHR ''0'') @ str_nat i @ ''.wav''])
           (labels @ [sq]) g2 = ((files', labels'), g')"
    by simp
  show ?case
  proof (rule Suc.IH[OF step])
    show "\<forall>p \<in> set (files @ [''/simulated/audio/audio_''
                    @ replicate (3 - length (str_nat i)) (CHR ''0'') @ str_nat i @ ''.wav'']). p \<noteq> []"
      using Suc.prems(2) by auto
  qed
qed

lemma load_audio_samples_paths:
  assumes "load_audio_samples n s g = (s', g')"
  shows "paths_ok s'"
proof -
  obtain files labels g1 where l: "load_loop n 0 [] [] g = ((files, labels), g1)"
    by (metis surj_pair)
  from load_loop_paths[OF l] have "\<forall>p \<in> set files. p \<noteq> []" by simp
  moreover from assms l have "s' = s\<lparr>audio_files := files, text_labels := labels\<rparr>"
    by (simp add: load_audio_samples_def)
  ultimately show ?thesis by (simp add: paths_ok_def)
qed

lemma initial_state_paths: "paths_ok (initial_state g)"
proof -
  obtain s2 g1 where l: "load_audio_samples 100 (fresh_state\<lparr>loader_use_dataset := True\<rparr>) g = (s2, g1)"
    by (metis surj_pair)
  from load_audio_samples_paths[OF l] l show ?thesis
    by (simp add: initial_state_def initialize_dataset_def paths_ok_def)
qed

lemma get_random_captcha_path:
  assumes ok: "dataset_ok s" and pk: "paths_ok s"
    and run: "get_random_captcha s g = (r, s1, g1)"
  shows "paths_ok s1 \<and> (\<exists>p t. r = Inr (Some (p, t)) \<and> p \<noteq> [] \<and> t \<in> set (text_labels s1))"
proof -
  obtain s0 g0 where pre: "(if audio_files s = [] then load_audio_samples 50 s g else (s, g)) = (s0, g0)"
    by (metis surj_pair)
  have s0: "dataset_ok s0 \<and> paths_ok s0 \<and> audio_files s0 \<noteq> []"
  proof (cases "audio_files s = []")
    case True
    with pre have l: "load_audio_samples 50 s g = (s0, g0)" by simp
    from load_audio_samples_ok[OF l] load_audio_samples_paths[OF l] show ?thesis
      by (auto simp: dataset_ok_def)
  next
    case False
    with pre ok pk show ?thesis by simp
  qed
  obtain idx g2 where idx: "randint 0 (int (length (audio_files s0)) - 1) g0 = (idx, g2)"
    by (metis surj_pair)
  have len: "0 < length (audio_files s0)" "length (text_labels s0) = length (audio_files s0)"
    using s0 by (auto simp: dataset_ok_def)
  then have "0 \<le> idx \<and> idx \<le> int (length (audio_files s0)) - 1"
    using randint_range[of 0 "int (length (audio_files s0)) - 1" g0] idx by simp
  with len have lt: "nat idx < length (text_labels s0)" "nat idx < length (audio_files s0)"
    by linarith+
  from run pre idx lt s0
  have "r = Inr (Some (audio_files s0 ! nat idx, text_labels s0 ! nat idx))" "s1 = s0"
    by (auto simp: get_random_captcha_def)
  moreover have "audio_files s0 ! nat idx \<noteq> []"
    using s0 lt(2) by (auto simp: paths_ok_def)
  ultimately show ?thesis using s0 lt by simp
qed

lemma from_dataset_mode:
  assumes ok: "dataset_ok s" and pk: "paths_ok s" and ud: "use_dataset s"
    and run: "generate_challenge_from_dataset s g = (r, s1, g1)"
  shows "paths_ok s1 \<and> (\<exists>ch t. r = Inr ch \<and> dataset_dict ch t \<and> t \<in> set (text_labels s1))"
proof -
  obtain r0 s0 g0 where c: "get_random_captcha s g = (r0, s0, g0)" by (metis prod_cases3)
  from get_random_captcha_path[OF ok pk c] obtain p t where
    p0: "paths_ok s0" and r0: "r0 = Inr (Some (p, t))" and p: "p \<noteq> []"
    and t: "t \<in> set (text_labels s0)"
    by blast
  from get_random_captcha_ok[OF ok c] have "dataset_ok s0" by simp
  with t have "t \<noteq> []" by (auto simp: dataset_ok_def)
  with p run ud c r0 have "s1 = s0"
      "r = Inr [(''type'', ''dataset_audio''), (''audio_path'', p), (''true_text'', t),
                 (''message'', ''Listen to the audio and type what you hear. The sequence has ''
                             @ str_nat (length t) @ '' digits.'')]"
    by (simp_all add: generate_challenge_from_dataset_def)
  with p0 t show ?thesis by (auto simp: dataset_dict_def)
qed

lemma chosen_mode:
  assumes ok: "dataset_ok s" and pk: "paths_ok s" and c: "chosen data g s = (r, s1, g1)"
  shows "paths_ok s1 \<and>
     (\<exists>ch. r = Inr ch \<and>
        (if truthy (dict_get data ''use_dataset'' (JBool True)) \<and> use_dataset s
         then (\<exists>t. dataset_dict ch t \<and> t \<in> set (text_labels s1))
         else synthetic_dict ch (fst (choices ''0123456789'' 4 g))))"
proof (cases "truthy (dict_get data ''use_dataset'' (JBool True)) \<and> use_dataset s")
  case True
  with c have "generate_challenge_from_dataset s g = (r, s1, g1)" by (simp add: chosen_def)
  from from_dataset_mode[OF ok pk _ this] True show ?thesis by auto
next
  case False
  obtain ch g' where d: "generate_synthetic_challenge g = (ch, g')" by (metis surj_pair)
  from False c d have "r = Inr ch" "s1 = s" by (auto simp: chosen_def)
  with synthetic_challenge_shape[OF d] pk False show ?thesis by (auto simp: synthetic_dict_def)
qed

lemma enhanced_mode:
  assumes ok: "dataset_ok s" and pk: "paths_ok s"
    and run: "enhanced_generate_challenge digest data now now' g s = (rep, s')"
  shows "paths_ok s' \<and>
     (\<exists>sq ty. decimal sq
        \<and> (if truthy (dict_get data ''use_dataset'' (JBool True)) \<and> use_dataset s
            then ty = ''dataset_audio'' \<and> 3 \<le> length sq \<and> length sq \<le> 6
            else ty = ''synthetic'' \<and> sq = fst (choices ''0123456789'' 4 g) \<and> length sq = 4)
        \<and> (take 16 (digest sq now) \<in> dom (challenges s)
             \<and> rep = Inl IntegrityError \<and> challenges s' = challenges s
           \<or> take 16 (digest sq now) \<notin> dom (challenges s)
             \<and> challenges s' = (challenges s)(take 16 (digest sq now) \<mapsto>
                \<lparr>sequence = sq, created_at = now', attempts = 0, solved = False,
                 challenge_type = ty\<rparr>)
             \<and> (\<exists>resp. rep = Inr resp \<and> map_of resp ''sequence'' = Some (JStr sq)
                   \<and> map_of resp ''challenge_type'' = Some (JStr ty))))"
proof -
  obtain r s1 g1 where c: "chosen data g s = (r, s1, g1)" by (metis prod_cases3)
  note st = chosen_store[OF c]
  note u = enhanced_unfold[OF c, of digest now now']
  from chosen_ok[OF ok c] have ok1: "dataset_ok s1" by simp
  from chosen_mode[OF ok pk c] obtain ch where pk1: "paths_ok s1" and r: "r = Inr ch"
    and shape: "if truthy (dict_get data ''use_dataset'' (JBool True)) \<and> use_dataset s
         then (\<exists>t. dataset_dict ch t \<and> t \<in> set (text_labels s1))
         else synthetic_dict ch (fst (choices ''0123456789'' 4 g))"
    by blast
  obtain sq ty msg where
    rd: "dict_get ch ''true_text'' (dict_get ch ''sequence'' '''') = sq"
        "dict_index ch ''type'' = Inr ty" "dict_index ch ''message'' = Inr msg"
    and dec: "decimal sq"
    and len: "if truthy (dict_get data ''use_dataset'' (JBool True)) \<and> use_dataset s
            then ty = ''dataset_audio'' \<and> 3 \<le> length sq \<and> length sq \<le> 6
            else ty = ''synthetic'' \<and> sq = fst (choices ''0123456789'' 4 g) \<and> length sq = 4"
  proof (cases "truthy (dict_get data ''use_dataset'' (JBool True)) \<and> use_dataset s")
    case True
    with shape obtain t where t: "dataset_dict ch t" "t \<in> set (text_labels s1)" by auto
    from t(2) ok1 have "decimal t \<and> 3 \<le> length t \<and> length t \<le> 6" by (simp add: dataset_ok_def)
    with dataset_dict_reads[OF t(1)] True that show thesis by auto
  next
    case False
    with shape have q: "synthetic_dict ch (fst (choices ''0123456789'' 4 g))" by simp
    have "decimal (fst (choices ''0123456789'' 4 g))" "length (fst (choices ''0123456789'' 4 g)) = 4"
      by (rule decimal_choices, rule length_choices)
    with synthetic_dict_reads[OF q] False that show thesis by auto
  qed
  let ?cid = "take 16 (digest sq now)"
  let ?row = "\<lparr>sequence = sq, created_at = now', attempts = 0, solved = False, challenge_type = ty\<rparr>"
  have fin: "?cid \<in> dom (challenges s) \<and> rep = Inl IntegrityError \<and> challenges s' = challenges s
               \<and> s' = s1
           \<or> ?cid \<notin> dom (challenges s)
             \<and> challenges s' = (challenges s)(?cid \<mapsto> ?row)
             \<and> s' = s1\<lparr>challenges := (challenges s)(?cid \<mapsto> ?row)\<rparr>
             \<and> (\<exists>resp. rep = Inr resp \<and> map_of resp ''sequence'' = Some (JStr sq)
                   \<and> map_of resp ''challenge_type'' = Some (JStr ty))"
  proof (cases "insert_challenge ?cid sq now' ty (challenges s1)")
    case (Inl e)
    with insert_challenge_cases(1)[OF Inl] run u r rd st show ?thesis by (auto simp: Let_def)
  next
    case (Inr tbl)
    with insert_challenge_cases(2)[OF Inr] run u r rd st show ?thesis
      by (cases "ty = ''dataset_audio''") (auto simp: Let_def)
  qed
  then have "paths_ok s'" using pk1 by (auto simp: paths_ok_def)
  with fin dec len show ?thesis by blast
qed

lemma handle_mode:
  assumes "dataset_ok s" and "paths_ok s"
  shows "paths_ok (snd (handle digest rq s))
       \<and> use_dataset (snd (handle digest rq s)) = use_dataset s"
proof (cases rq)
  case (Generate data now now' g)
  obtain rep s' where run: "enhanced_generate_challenge digest data now now' g s = (rep, s')"
    by (metis surj_pair)
  from enhanced_mode[OF assms run] enhanced_digits[OF assms(1) run]
  have "paths_ok s' \<and> use_dataset s' = use_dataset s" by simp
  with Generate run show ?thesis by simp
next
  case (Alternative now now' g)
  obtain rep s' where run: "alternative_challenge digest now now' g s = (rep, s')"
    by (metis surj_pair)
  from alternative_effect[OF run] assms(2)
  have "paths_ok s' \<and> use_dataset s' = use_dataset s"
    by (auto simp: paths_ok_def)
  with Alternative run show ?thesis by simp
next
  case (Verify data ip now)
  with assms(2) verify_loader[of data ip now s] show ?thesis by (simp add: paths_ok_def)
qed

lemma run_mode:
  assumes "dataset_ok s" and "store_ok s" and "paths_ok s"
  shows "paths_ok (run digest rs s) \<and> use_dataset (run digest rs s) = use_dataset s"
  using assms
proof (induction rs arbitrary: s)
  case Nil
  then show ?case by simp
next
  case (Cons rq rs)
  from handle_inv[OF Cons.prems(1,2), of digest rq] handle_mode[OF Cons.prems(1,3), of digest rq]
    Cons.IH[of "snd (handle digest rq s)"]
  show ?case by simp
qed

lemma reachable_mode:
  "paths_ok (run digest rs (initial_state g0)) \<and> use_dataset (run digest rs (initial_state g0))"
proof -
  have "dataset_ok (initial_state g0)" "use_dataset (initial_state g0)"
    using initial_state_ok[of g0] by simp_all
  moreover have "store_ok (initial_state g0)"
    using initial_state_ok[of g0] by (simp add: store_ok_def)
  ultimately show ?thesis using run_mode[OF _ _ initial_state_paths, of g0 digest rs] by simp
qed

section \<open>The claims\<close>

subsection \<open>C1: the rate limiter's gate\<close>

text \<open>
  Claim C1. A verify call from an address whose recorded last attempt (the time of its
  last call that passed the gate, kept in \<^verbatim>\<open>challenge_attempts\<close>) is less than two
  seconds before the call returns \<^verbatim>\<open>success: false, rate_limited: true\<close> and leaves
  the whole state as it was: the recorded time is not updated, and no row of the table
  is touched, so no attempt counter grows. A call from an address with no record, or
  with a record two seconds old or older, is not answered as rate limited, and records
  the current time for the address. Hence a call that follows a call that passed the
  gate by less than two seconds is rate limited and changes nothing.
\<close>

theorem rate_limiter_gate:
  "(\<forall>t0. challenge_attempts s ip = Some t0 \<and> now - t0 < 2000000 \<longrightarrow>
      verify_response data ip now s =
        (Inr [(''success'', JBool False),
              (''message'', JStr ''Please wait before trying again''),
              (''rate_limited'', JBool True)], s))
   \<and> ((\<forall>t0. challenge_attempts s ip = Some t0 \<longrightarrow> 2000000 \<le> now - t0) \<longrightarrow>
        (\<forall>d. fst (verify_response data ip now s) = Inr d \<longrightarrow> map_of d ''rate_limited'' = None)
        \<and> challenge_attempts (snd (verify_response data ip now s))
            = (challenge_attempts s)(ip \<mapsto> now))
   \<and> ((\<forall>t0. challenge_attempts s ip = Some t0 \<longrightarrow> 2000000 \<le> now - t0)
        \<and> now' - now < 2000000 \<longrightarrow>
        verify_response data' ip now' (snd (verify_response data ip now s)) =
          (Inr [(''success'', JBool False),
                (''message'', JStr ''Please wait before trying again''),
                (''rate_limited'', JBool True)], snd (verify_response data ip now s)))"
proof (intro conjI allI impI)
  fix t0 assume "challenge_attempts s ip = Some t0 \<and> now - t0 < 2000000"
  then show "verify_response data ip now s =
        (Inr [(''success'', JBool False),
              (''message'', JStr ''Please wait before trying again''),
              (''rate_limited'', JBool True)], s)"
    by (simp add: verify_limited)
next
  fix d
  assume gate: "\<forall>t0. challenge_attempts s ip = Some t0 \<longrightarrow> 2000000 \<le> now - t0"
    and d: "fst (verify_response data ip now s) = Inr d"
  show "map_of d ''rate_limited'' = None"
  proof (cases rule: verify_cases[where s=s and ip=ip and now=now and data=data])
    case (limited t0)
    with gate show ?thesis by fastforce
  next
    case missing
    with d show ?thesis by (auto simp: verify_missing)
  next
    case (raises e)
    with d show ?thesis by (simp add: verify_raises)
  next
    case invalid
    with d show ?thesis by (auto simp: verify_invalid)
  next
    case (found k row)
    with d show ?thesis by (auto simp: verify_found Let_def)
  qed
next
  assume gate: "\<forall>t0. challenge_attempts s ip = Some t0 \<longrightarrow> 2000000 \<le> now - t0"
  show "challenge_attempts (snd (verify_response data ip now s)) = (challenge_attempts s)(ip \<mapsto> now)"
  proof (cases rule: verify_cases[where s=s and ip=ip and now=now and data=data])
    case (limited t0)
    with gate show ?thesis by fastforce
  qed (simp_all add: verify_missing verify_raises verify_invalid verify_found Let_def)
next
  assume a: "(\<forall>t0. challenge_attempts s ip = Some t0 \<longrightarrow> 2000000 \<le> now - t0)
        \<and> now' - now < 2000000"
  have "challenge_attempts (snd (verify_response data ip now s)) ip = Some now"
  proof (cases rule: verify_cases[where s=s and ip=ip and now=now and data=data])
    case (limited t0)
    with a show ?thesis by fastforce
  qed (simp_all add: verify_missing verify_raises verify_invalid verify_found Let_def)
  with a show "verify_response data' ip now' (snd (verify_response data ip now s)) =
          (Inr [(''success'', JBool False),
                (''message'', JStr ''Please wait before trying again''),
                (''rate_limited'', JBool True)], snd (verify_response data ip now s))"
    by (simp add: verify_limited)
qed

theorem rate_limiter_gate_witness:
  "verify_response [(''challenge_id'', JStr ''0f3a''), (''response'', JStr ''7042'')]
       ''10.0.0.1'' 2500000 (fresh_state\<lparr>challenge_attempts := [''10.0.0.1'' \<mapsto> 1000000]\<rparr>)
     = (Inr [(''success'', JBool False),
             (''message'', JStr ''Please wait before trying again''),
             (''rate_limited'', JBool True)],
        fresh_state\<lparr>challenge_attempts := [''10.0.0.1'' \<mapsto> 1000000]\<rparr>)
   \<and> challenge_attempts
        (snd (verify_response [(''challenge_id'', JStr ''0f3a''), (''response'', JStr ''7042'')]
               ''10.0.0.1'' 3000000 (fresh_state\<lparr>challenge_attempts := [''10.0.0.1'' \<mapsto> 1000000]\<rparr>)))
       ''10.0.0.1'' = Some 3000000
   \<and> challenge_attempts
        (snd (verify_response [(''challenge_id'', JStr ''0f3a''), (''response'', JStr ''7042'')]
               ''10.0.0.1'' 3000000 fresh_state)) ''10.0.0.1'' = Some 3000000
   \<and> fst (verify_response [(''challenge_id'', JStr ''0f3a''), (''response'', JStr ''7042'')]
          ''10.0.0.1'' 3500000
          (snd (verify_response [(''challenge_id'', JStr ''0f3a''), (''response'', JStr ''7042'')]
               ''10.0.0.1'' 3000000 fresh_state)))
     = Inr [(''success'', JBool False),
            (''message'', JStr ''Please wait before trying again''),
            (''rate_limited'', JBool True)]"
  using rate_limiter_gate[of "fresh_state\<lparr>challenge_attempts := [''10.0.0.1'' \<mapsto> 1000000]\<rparr>"
          "''10.0.0.1''" 2500000 "[(''challenge_id'', JStr ''0f3a''), (''response'', JStr ''7042'')]"]
        rate_limiter_gate[of "fresh_state\<lparr>challenge_attempts := [''10.0.0.1'' \<mapsto> 1000000]\<rparr>"
          "''10.0.0.1''" 3000000 "[(''challenge_id'', JStr ''0f3a''), (''response'', JStr ''7042'')]"]
        rate_limiter_gate[of fresh_state
          "''10.0.0.1''" 3000000 "[(''challenge_id'', JStr ''0f3a''), (''response'', JStr ''7042'')]"
          3500000 "[(''challenge_id'', JStr ''0f3a''), (''response'', JStr ''7042'')]"]
  by (simp add: fresh_state_def)

subsection \<open>C2: the comparison of the cleaned strings\<close>

text \<open>
  Claim C2. A verify call that passes the gate and whose \<^verbatim>\<open>challenge_id\<close> selects a
  row keeps the characters of \<^verbatim>\<open>str(response)\<close> and of the stored sequence for which
  \<^verbatim>\<open>str.isdigit\<close> holds, returns both cleaned strings, and reports success exactly
  when they are equal. In particular the response \<^verbatim>\<open>1-2 3a4\<close> against the stored
  sequence \<^verbatim>\<open>1234\<close> succeeds.
\<close>

theorem verify_compares_cleaned:
  "((\<forall>t0. challenge_attempts s ip = Some t0 \<longrightarrow> 2000000 \<le> now - t0)
     \<and> truthy (dict_get data ''challenge_id'' JNull)
     \<and> select_by_id (challenges s) (dict_get data ''challenge_id'' JNull) = Inr (Some (k, row))
    \<longrightarrow>
     fst (verify_response data ip now s) =
       Inr [(''success'', JBool (filter isdigit (py_str (dict_get data ''response'' (JStr '''')))
                                 = filter isdigit (sequence row))),
            (''message'', JStr (if filter isdigit (py_str (dict_get data ''response'' (JStr '''')))
                                    = filter isdigit (sequence row)
                                then ''Access granted'' else ''Access denied'')),
            (''expected'', JStr (filter isdigit (sequence row))),
            (''provided'', JStr (filter isdigit (py_str (dict_get data ''response'' (JStr '''')))))])
   \<and> ((\<forall>t0. challenge_attempts s ip = Some t0 \<longrightarrow> 2000000 \<le> now - t0)
       \<and> cid \<noteq> [] \<and> challenges s cid = Some row' \<and> sequence row' = ''1234''
      \<longrightarrow>
       fst (verify_response [(''challenge_id'', JStr cid), (''response'', JStr ''1-2 3a4'')] ip now s) =
         Inr [(''success'', JBool True),
              (''message'', JStr ''Access granted''),
              (''expected'', JStr ''1234''),
              (''provided'', JStr ''1234'')])"
proof (intro conjI impI)
  assume "(\<forall>t0. challenge_attempts s ip = Some t0 \<longrightarrow> 2000000 \<le> now - t0)
     \<and> truthy (dict_get data ''challenge_id'' JNull)
     \<and> select_by_id (challenges s) (dict_get data ''challenge_id'' JNull) = Inr (Some (k, row))"
  then show "fst (verify_response data ip now s) =
       Inr [(''success'', JBool (filter isdigit (py_str (dict_get data ''response'' (JStr '''')))
                                 = filter isdigit (sequence row))),
            (''message'', JStr (if filter isdigit (py_str (dict_get data ''response'' (JStr '''')))
                                    = filter isdigit (sequence row)
                                then ''Access granted'' else ''Access denied'')),
            (''expected'', JStr (filter isdigit (sequence row))),
            (''provided'', JStr (filter isdigit (py_str (dict_get data ''response'' (JStr '''')))))]"
    by (simp add: verify_found Let_def)
next
  let ?data = "[(''challenge_id'', JStr cid), (''response'', JStr ''1-2 3a4'')]"
  assume a: "(\<forall>t0. challenge_attempts s ip = Some t0 \<longrightarrow> 2000000 \<le> now - t0)
       \<and> cid \<noteq> [] \<and> challenges s cid = Some row' \<and> sequence row' = ''1234''"
  have id: "dict_get ?data ''challenge_id'' JNull = JStr cid"
    and rs: "dict_get ?data ''response'' (JStr '''') = JStr ''1-2 3a4''"
    by (simp_all add: dict_get_def)
  have "verify_response ?data ip now s =
     (let user_clean = filter isdigit (py_str (dict_get ?data ''response'' (JStr '''')));
          sequence_clean = filter isdigit (sequence row');
          success = (user_clean = sequence_clean)
      in (Inr [(''success'', JBool success),
               (''message'', JStr (if success then ''Access granted'' else ''Access denied'')),
               (''expected'', JStr sequence_clean),
               (''provided'', JStr user_clean)],
          s\<lparr>challenge_attempts := (challenge_attempts s)(ip \<mapsto> now),
            challenges := (challenges s)(cid \<mapsto>
               row'\<lparr>attempts := attempts row' + 1, solved := (success \<or> solved row')\<rparr>)\<rparr>))"
    by (rule verify_found) (use a in \<open>simp_all add: id\<close>)
  then show "fst (verify_response ?data ip now s) =
         Inr [(''success'', JBool True),
              (''message'', JStr ''Access granted''),
              (''expected'', JStr ''1234''),
              (''provided'', JStr ''1234'')]"
    using a by (simp add: rs Let_def isdigit_def)
qed

theorem verify_compares_cleaned_witness:
  "fst (verify_response [(''challenge_id'', JStr ''0f3a''), (''response'', JStr ''70x42'')]
         ''10.0.0.1'' 3000000
         (fresh_state\<lparr>challenges := [''0f3a'' \<mapsto>
            \<lparr>sequence = ''7042'', created_at = 0, attempts = 0, solved = False,
             challenge_type = ''synthetic''\<rparr>]\<rparr>))
     = Inr [(''success'', JBool True),
            (''message'', JStr ''Access granted''),
            (''expected'', JStr ''7042''),
            (''provided'', JStr ''7042'')]
   \<and> fst (verify_response [(''challenge_id'', JStr ''9b1c''), (''response'', JStr ''1-2 3a4'')]
         ''10.0.0.1'' 3000000
         (fresh_state\<lparr>challenges := [''9b1c'' \<mapsto>
            \<lparr>sequence = ''1234'', created_at = 0, attempts = 0, solved = False,
             challenge_type = ''synthetic''\<rparr>]\<rparr>))
     = Inr [(''success'', JBool True),
            (''message'', JStr ''Access granted''),
            (''expected'', JStr ''1234''),
            (''provided'', JStr ''1234'')]"
  using verify_compares_cleaned[of
          "fresh_state\<lparr>challenges := [''0f3a'' \<mapsto>
            \<lparr>sequence = ''7042'', created_at = 0, attempts = 0, solved = False,
             challenge_type = ''synthetic''\<rparr>]\<rparr>"
          "''10.0.0.1''" 3000000
          "[(''challenge_id'', JStr ''0f3a''), (''response'', JStr ''70x42'')]"
          "''0f3a''"
          "\<lparr>sequence = ''7042'', created_at = 0, attempts = 0, solved = False,
             challenge_type = ''synthetic''\<rparr>"]
        verify_compares_cleaned[of
          "fresh_state\<lparr>challenges := [''9b1c'' \<mapsto>
            \<lparr>sequence = ''1234'', created_at = 0, attempts = 0, solved = False,
             challenge_type = ''synthetic''\<rparr>]\<rparr>"
          "''10.0.0.1''" 3000000 _ _ _ "''9b1c''"
          "\<lparr>sequence = ''1234'', created_at = 0, attempts = 0, solved = False,
             challenge_type = ''synthetic''\<rparr>"]
  by (simp add: fresh_state_def dict_get_def isdigit_def)

subsection \<open>C3: every verification counts as one attempt\<close>

text \<open>
  Claim C3. A verify call that passes the gate and whose \<^verbatim>\<open>challenge_id\<close> selects a
  row adds exactly one to the row's \<^verbatim>\<open>attempts\<close>, whatever the response. And the
  scenario: a synthetic challenge is created with the sequence \<^verbatim>\<open>7042\<close>; a first
  verify with \<^verbatim>\<open>0000\<close> fails with expected \<^verbatim>\<open>7042\<close> and provided \<^verbatim>\<open>0000\<close> and
  leaves \<^verbatim>\<open>attempts = 1\<close>; a second verify with \<^verbatim>\<open>7042\<close>, two seconds later or
  more, succeeds and leaves \<^verbatim>\<open>attempts = 2\<close> and \<^verbatim>\<open>solved\<close> true.
\<close>

theorem verify_counts_attempt:
  "((\<forall>t0. challenge_attempts s ip = Some t0 \<longrightarrow> 2000000 \<le> now - t0)
     \<and> truthy (dict_get data ''challenge_id'' JNull)
     \<and> select_by_id (challenges s) (dict_get data ''challenge_id'' JNull) = Inr (Some (k, row))
    \<longrightarrow>
     (\<exists>row'. challenges (snd (verify_response data ip now s)) k = Some row'
         \<and> attempts row' = attempts row + 1))
   \<and> (take 16 (digest ''7042'' t) \<noteq> []
       \<and> take 16 (digest ''7042'' t) \<notin> dom (challenges s0)
       \<and> challenge_attempts s0 ip = None
       \<and> 2000000 \<le> t2 - t1
      \<longrightarrow>
       (let cid = take 16 (digest ''7042'' t);
            (r0, s1) = enhanced_generate_challenge digest [(''use_dataset'', JBool False)] t t'
                         (\<lambda>i. [7, 0, 4, 2] ! (i mod 4)) s0;
            (r1, s2) = verify_response [(''challenge_id'', JStr cid), (''response'', JStr ''0000'')]
                         ip t1 s1;
            (r2, s3) = verify_response [(''challenge_id'', JStr cid), (''response'', JStr ''7042'')]
                         ip t2 s2
        in challenges s1 cid = Some \<lparr>sequence = ''7042'', created_at = t', attempts = 0,
                                     solved = False, challenge_type = ''synthetic''\<rparr>
           \<and> r1 = Inr [(''success'', JBool False),
                       (''message'', JStr ''Access denied''),
                       (''expected'', JStr ''7042''),
                       (''provided'', JStr ''0000'')]
           \<and> challenges s2 cid = Some \<lparr>sequence = ''7042'', created_at = t', attempts = 1,
                                       solved = False, challenge_type = ''synthetic''\<rparr>
           \<and> r2 = Inr [(''success'', JBool True),
                       (''message'', JStr ''Access granted''),
                       (''expected'', JStr ''7042''),
                       (''provided'', JStr ''7042'')]
           \<and> challenges s3 cid = Some \<lparr>sequence = ''7042'', created_at = t', attempts = 2,
                                       solved = True, challenge_type = ''synthetic''\<rparr>))"
proof (intro conjI impI)
  assume "(\<forall>t0. challenge_attempts s ip = Some t0 \<longrightarrow> 2000000 \<le> now - t0)
     \<and> truthy (dict_get data ''challenge_id'' JNull)
     \<and> select_by_id (challenges s) (dict_get data ''challenge_id'' JNull) = Inr (Some (k, row))"
  then show "\<exists>row'. challenges (snd (verify_response data ip now s)) k = Some row'
         \<and> attempts row' = attempts row + 1"
    by (simp add: verify_found Let_def)
next
  let ?g = "\<lambda>i. [7, 0, 4, 2] ! (i mod 4) :: nat"
  let ?cid = "take 16 (digest ''7042'' t)"
  let ?row = "\<lparr>sequence = ''7042'', created_at = t', attempts = 0,
               solved = False, challenge_type = ''synthetic''\<rparr>"
  let ?d1 = "[(''challenge_id'', JStr ?cid), (''response'', JStr ''0000'')]"
  let ?d2 = "[(''challenge_id'', JStr ?cid), (''response'', JStr ''7042'')]"
  assume a: "?cid \<noteq> [] \<and> ?cid \<notin> dom (challenges s0) \<and> challenge_attempts s0 ip = None
       \<and> 2000000 \<le> t2 - t1"
  have sq: "choices ''0123456789'' 4 ?g = (''7042'', \<lambda>i. ?g (i + 4))"
    by (simp add: choices_def upt_rec)
  have ch: "chosen [(''use_dataset'', JBool False)] ?g s0 =
      (Inr [(''type'', ''synthetic''), (''sequence'', ''7042''),
            (''message'', ''Please speak or type the sequence: '' @ ''7042'')], s0, \<lambda>i. ?g (i + 4))"
    unfolding chosen_def generate_synthetic_challenge_def sq by (simp add: dict_get_def)
  obtain r0 where gen: "enhanced_generate_challenge digest [(''use_dataset'', JBool False)] t t' ?g s0
      = (r0, s0\<lparr>challenges := (challenges s0)(?cid \<mapsto> ?row)\<rparr>)"
    using a unfolding enhanced_unfold[OF ch]
    by (simp add: dict_get_def dict_index_def insert_challenge_def Let_def)
  let ?s1 = "s0\<lparr>challenges := (challenges s0)(?cid \<mapsto> ?row)\<rparr>"
  have v1: "verify_response ?d1 ip t1 ?s1 =
      (Inr [(''success'', JBool False),
            (''message'', JStr ''Access denied''),
            (''expected'', JStr ''7042''),
            (''provided'', JStr ''0000'')],
       ?s1\<lparr>challenge_attempts := (challenge_attempts ?s1)(ip \<mapsto> t1),
            challenges := (challenges ?s1)(?cid \<mapsto> ?row\<lparr>attempts := 1\<rparr>)\<rparr>)"
    using a by (simp add: verify_response_def dict_get_def isdigit_def Let_def)
  let ?s2 = "?s1\<lparr>challenge_attempts := (challenge_attempts ?s1)(ip \<mapsto> t1),
            challenges := (challenges ?s1)(?cid \<mapsto> ?row\<lparr>attempts := 1\<rparr>)\<rparr>"
  have v2: "verify_response ?d2 ip t2 ?s2 =
      (Inr [(''success'', JBool True),
            (''message'', JStr ''Access granted''),
            (''expected'', JStr ''7042''),
            (''provided'', JStr ''7042'')],
       ?s2\<lparr>challenge_attempts := (challenge_attempts ?s2)(ip \<mapsto> t2),
            challenges := (challenges ?s2)(?cid \<mapsto> ?row\<lparr>attempts := 2, solved := True\<rparr>)\<rparr>)"
    using a by (simp add: verify_response_def dict_get_def isdigit_def Let_def)
  show "(let cid = take 16 (digest ''7042'' t);
            (r0, s1) = enhanced_generate_challenge digest [(''use_dataset'', JBool False)] t t'
                         (\<lambda>i. [7, 0, 4, 2] ! (i mod 4)) s0;
            (r1, s2) = verify_response [(''challenge_id'', JStr cid), (''response'', JStr ''0000'')]
                         ip t1 s1;
            (r2, s3) = verify_response [(''challenge_id'', JStr cid), (''response'', JStr ''7042'')]
                         ip t2 s2
        in challenges s1 cid = Some \<lparr>sequence = ''7042'', created_at = t', attempts = 0,
                                     solved = False, challenge_type = ''synthetic''\<rparr>
           \<and> r1 = Inr [(''success'', JBool False),
                       (''message'', JStr ''Access denied''),
                       (''expected'', JStr ''7042''),
                       (''provided'', JStr ''0000'')]
           \<and> challenges s2 cid = Some \<lparr>sequence = ''7042'', created_at = t', attempts = 1,
                                       solved = False, challenge_type = ''synthetic''\<rparr>
           \<and> r2 = Inr [(''success'', JBool True),
                       (''message'', JStr ''Access granted''),
                       (''expected'', JStr ''7042''),
                       (''provided'', JStr ''7042'')]
           \<and> challenges s3 cid = Some \<lparr>sequence = ''7042'', created_at = t', attempts = 2,
                                       solved = True, challenge_type = ''synthetic''\<rparr>)"
    unfolding Let_def gen prod.case v1 v2 by simp
qed


theorem verify_counts_attempt_witness:
  "(\<exists>row'. challenges
        (snd (verify_response [(''challenge_id'', JStr ''0f3a''), (''response'', JStr ''1111'')]
               ''10.0.0.1'' 3000000
               (fresh_state\<lparr>challenges := [''0f3a'' \<mapsto>
                  \<lparr>sequence = ''7042'', created_at = 0, attempts = 5, solved = False,
                   challenge_type = ''synthetic''\<rparr>]\<rparr>))) ''0f3a'' = Some row'
      \<and> attempts row' = 6)
   \<and> (let cid = take 16 ''c4ca4238a0b923820dcc509a6f75849b'';
            (r0, s1) = enhanced_generate_challenge (\<lambda>text now. ''c4ca4238a0b923820dcc509a6f75849b'')
                         [(''use_dataset'', JBool False)] 0 0
                         (\<lambda>i. [7, 0, 4, 2] ! (i mod 4)) fresh_state;
            (r1, s2) = verify_response [(''challenge_id'', JStr cid), (''response'', JStr ''0000'')]
                         ''10.0.0.1'' 1000000 s1;
            (r2, s3) = verify_response [(''challenge_id'', JStr cid), (''response'', JStr ''7042'')]
                         ''10.0.0.1'' 3000000 s2
        in challenges s1 cid = Some \<lparr>sequence = ''7042'', created_at = 0, attempts = 0,
                                     solved = False, challenge_type = ''synthetic''\<rparr>
           \<and> r1 = Inr [(''success'', JBool False),
                       (''message'', JStr ''Access denied''),
                       (''expected'', JStr ''7042''),
                       (''provided'', JStr ''0000'')]
           \<and> challenges s2 cid = Some \<lparr>sequence = ''7042'', created_at = 0, attempts = 1,
                                       solved = False, challenge_type = ''synthetic''\<rparr>
           \<and> r2 = Inr [(''success'', JBool True),
                       (''message'', JStr ''Access granted''),
                       (''expected'', JStr ''7042''),
                       (''provided'', JStr ''7042'')]
           \<and> challenges s3 cid = Some \<lparr>sequence = ''7042'', created_at = 0, attempts = 2,
                                       solved = True, challenge_type = ''synthetic''\<rparr>)"
  using verify_counts_attempt[where
          s = "fresh_state\<lparr>challenges := [''0f3a'' \<mapsto>
                  \<lparr>sequence = ''7042'', created_at = 0, attempts = 5, solved = False,
                   challenge_type = ''synthetic''\<rparr>]\<rparr>"
          and ip = "''10.0.0.1''" and now = 3000000
          and data = "[(''challenge_id'', JStr ''0f3a''), (''response'', JStr ''1111'')]"
          and k = "''0f3a''"
          and row = "\<lparr>sequence = ''7042'', created_at = 0, attempts = 5, solved = False,
                   challenge_type = ''synthetic''\<rparr>"
          and digest = "\<lambda>text now. ''c4ca4238a0b923820dcc509a6f75849b''"
          and t = 0 and t' = 0 and ?s0.0 = fresh_state and ?t1.0 = 1000000 and ?t2.0 = 3000000]
  by (simp add: fresh_state_def dict_get_def)

subsection \<open>C4: the counters never go back\<close>

text \<open>
  Claim C4. Along every sequence of create and verify requests, from any state, a row
  that is in the table stays in the table, its \<^verbatim>\<open>attempts\<close> never decreases and its
  \<^verbatim>\<open>solved\<close>, once true, stays true: the value after any further requests is
  compared with the value after the requests so far.
\<close>

theorem counters_monotone:
  "challenges (run digest rs s) cid = Some r \<longrightarrow>
     (\<exists>r'. challenges (run digest (rs @ rs') s) cid = Some r'
         \<and> attempts r \<le> attempts r' \<and> (solved r \<longrightarrow> solved r'))"
proof
  assume "challenges (run digest rs s) cid = Some r"
  from run_row[OF this, of digest rs']
  show "\<exists>r'. challenges (run digest (rs @ rs') s) cid = Some r'
         \<and> attempts r \<le> attempts r' \<and> (solved r \<longrightarrow> solved r')"
    by (auto simp: run_append)
qed

theorem counters_monotone_witness:
  "challenges
     (run (\<lambda>text now. ''c4ca4238a0b923820dcc509a6f75849b'')
        [Verify [(''challenge_id'', JStr ''0f3a''), (''response'', JStr ''7042'')] ''10.0.0.1'' 1000000]
        (fresh_state\<lparr>challenges := [''0f3a'' \<mapsto>
            \<lparr>sequence = ''7042'', created_at = 0, attempts = 0, solved = False,
             challenge_type = ''synthetic''\<rparr>]\<rparr>)) ''0f3a''
     = Some \<lparr>sequence = ''7042'', created_at = 0, attempts = 1, solved = True,
             challenge_type = ''synthetic''\<rparr>
   \<and> (\<exists>r'. challenges
          (run (\<lambda>text now. ''c4ca4238a0b923820dcc509a6f75849b'')
             ([Verify [(''challenge_id'', JStr ''0f3a''), (''response'', JStr ''7042'')] ''10.0.0.1'' 1000000]
              @ [Verify [(''challenge_id'', JStr ''0f3a''), (''response'', JStr ''0000'')] ''10.0.0.1'' 4000000,
                 Alternative 5000000 5000000 (\<lambda>i. i)])
             (fresh_state\<lparr>challenges := [''0f3a'' \<mapsto>
                 \<lparr>sequence = ''7042'', created_at = 0, attempts = 0, solved = False,
                  challenge_type = ''synthetic''\<rparr>]\<rparr>)) ''0f3a'' = Some r'
        \<and> 1 \<le> attempts r' \<and> solved r')"
proof -
  let ?d = "\<lambda>text now :: int. ''c4ca4238a0b923820dcc509a6f75849b''"
  let ?s = "fresh_state\<lparr>challenges := [''0f3a'' \<mapsto>
            \<lparr>sequence = ''7042'', created_at = 0, attempts = 0, solved = False,
             challenge_type = ''synthetic''\<rparr>]\<rparr>"
  let ?rs = "[Verify [(''challenge_id'', JStr ''0f3a''), (''response'', JStr ''7042'')] ''10.0.0.1'' 1000000]"
  have h: "challenges (run ?d ?rs ?s) ''0f3a''
     = Some \<lparr>sequence = ''7042'', created_at = 0, attempts = 1, solved = True,
             challenge_type = ''synthetic''\<rparr>"
    by (simp add: verify_response_def fresh_state_def dict_get_def isdigit_def Let_def)
  let ?r = "\<lparr>sequence = ''7042'', created_at = 0, attempts = 1, solved = True,
             challenge_type = ''synthetic''\<rparr>"
  let ?rs' = "[Verify [(''challenge_id'', JStr ''0f3a''), (''response'', JStr ''0000'')] ''10.0.0.1'' 4000000,
           Alternative 5000000 5000000 (\<lambda>i. i)]"
  have "challenges (run ?d ?rs ?s) ''0f3a'' = Some ?r \<longrightarrow>
     (\<exists>r'. challenges (run ?d (?rs @ ?rs') ?s) ''0f3a'' = Some r'
         \<and> attempts ?r \<le> attempts r' \<and> (solved ?r \<longrightarrow> solved r'))"
    by (rule counters_monotone)
  with h have "\<exists>r'. challenges (run ?d (?rs @ ?rs') ?s) ''0f3a'' = Some r'
         \<and> attempts ?r \<le> attempts r' \<and> (solved ?r \<longrightarrow> solved r')"
    by (rule rev_mp)
  then obtain r' where "challenges (run ?d (?rs @ ?rs') ?s) ''0f3a'' = Some r'"
    "1 \<le> attempts r'" "solved r'"
    by auto
  with h show ?thesis by blast
qed

subsection \<open>C5: an unknown id\<close>

text \<open>
  Claim C5 says that every verify call that is not rate limited and whose challenge id
  has no record returns \<^verbatim>\<open>success: false\<close> with the error \<^verbatim>\<open>invalid_challenge\<close>.
  The handler first tests \<^verbatim>\<open>not challenge_id\<close>: for the ids \<^verbatim>\<open>""\<close> and \<^verbatim>\<open>0\<close>,
  which have no record, the error is \<^verbatim>\<open>Missing challenge_id\<close>. And an integer id of
  more than 64 bits, which has no record either, is refused when it is bound to the
  query: the call ends in the exception and not in a reply.
\<close>

theorem unknown_id_counterexample:
  "verify_response [(''challenge_id'', JStr ''''), (''response'', JStr ''7042'')]
       ''10.0.0.1'' 3000000 fresh_state
     = (Inr [(''success'', JBool False), (''error'', JStr ''Missing challenge_id'')],
        fresh_state\<lparr>challenge_attempts := [''10.0.0.1'' \<mapsto> 3000000]\<rparr>)
   \<and> verify_response [(''challenge_id'', JInt 0), (''response'', JStr ''7042'')]
       ''10.0.0.1'' 3000000 fresh_state
     = (Inr [(''success'', JBool False), (''error'', JStr ''Missing challenge_id'')],
        fresh_state\<lparr>challenge_attempts := [''10.0.0.1'' \<mapsto> 3000000]\<rparr>)
   \<and> verify_response [(''challenge_id'', JInt 9223372036854775808), (''response'', JStr ''7042'')]
       ''10.0.0.1'' 3000000 fresh_state
     = (Inl OverflowError,
        fresh_state\<lparr>challenge_attempts := [''10.0.0.1'' \<mapsto> 3000000]\<rparr>)"
  by (simp add: verify_response_def fresh_state_def dict_get_def)

text \<open>
  Claim C5 as amended. For a verify call that passes the gate: when \<^verbatim>\<open>challenge_id\<close>
  is a non-empty string with no row under it, or a non-zero integer of at most 64 bits
  with no row under its decimal text, or \<^verbatim>\<open>true\<close> with no row under \<^verbatim>\<open>1\<close>, the call
  returns \<^verbatim>\<open>success: false\<close> with the error \<^verbatim>\<open>Invalid challenge\<close> and the table is
  as it was; when \<^verbatim>\<open>challenge_id\<close> is missing or falsy (\<^verbatim>\<open>null\<close>, \<^verbatim>\<open>false\<close>, \<^verbatim>\<open>0\<close>,
  the empty string), the call returns \<^verbatim>\<open>success: false\<close> with the error
  \<^verbatim>\<open>Missing challenge_id\<close> and the table is as it was. No verify call, whatever its
  input and its outcome, adds a key to the table or removes one, and a call whose
  query selects no row changes no row: only the creation handlers mint ids.
\<close>

theorem verify_unknown_id:
  "((\<forall>t0. challenge_attempts s ip = Some t0 \<longrightarrow> 2000000 \<le> now - t0)
     \<and> dict_get data ''challenge_id'' JNull = JStr c \<and> c \<noteq> [] \<and> challenges s c = None
    \<longrightarrow>
     verify_response data ip now s =
       (Inr [(''success'', JBool False), (''error'', JStr ''Invalid challenge'')],
        s\<lparr>challenge_attempts := (challenge_attempts s)(ip \<mapsto> now)\<rparr>))
   \<and> ((\<forall>t0. challenge_attempts s ip = Some t0 \<longrightarrow> 2000000 \<le> now - t0)
     \<and> dict_get data ''challenge_id'' JNull = JInt i \<and> i \<noteq> 0
     \<and> - (2 ^ 63) \<le> i \<and> i < 2 ^ 63 \<and> challenges s (str_int i) = None
    \<longrightarrow>
     verify_response data ip now s =
       (Inr [(''success'', JBool False), (''error'', JStr ''Invalid challenge'')],
        s\<lparr>challenge_attempts := (challenge_attempts s)(ip \<mapsto> now)\<rparr>))
   \<and> ((\<forall>t0. challenge_attempts s ip = Some t0 \<longrightarrow> 2000000 \<le> now - t0)
     \<and> dict_get data ''challenge_id'' JNull = JBool True \<and> challenges s ''1'' = None
    \<longrightarrow>
     verify_response data ip now s =
       (Inr [(''success'', JBool False), (''error'', JStr ''Invalid challenge'')],
        s\<lparr>challenge_attempts := (challenge_attempts s)(ip \<mapsto> now)\<rparr>))
   \<and> ((\<forall>t0. challenge_attempts s ip = Some t0 \<longrightarrow> 2000000 \<le> now - t0)
     \<and> dict_get data ''challenge_id'' JNull \<in> {JNull, JBool False, JInt 0, JStr ''''}
    \<longrightarrow>
     verify_response data ip now s =
       (Inr [(''success'', JBool False), (''error'', JStr ''Missing challenge_id'')],
        s\<lparr>challenge_attempts := (challenge_attempts s)(ip \<mapsto> now)\<rparr>))
   \<and> dom (challenges (snd (verify_response data ip now s))) = dom (challenges s)
   \<and> ((\<forall>k row. select_by_id (challenges s) (dict_get data ''challenge_id'' JNull)
                    \<noteq> Inr (Some (k, row)))
       \<longrightarrow> challenges (snd (verify_response data ip now s)) = challenges s)"
proof (intro conjI impI)
  assume "(\<forall>t0. challenge_attempts s ip = Some t0 \<longrightarrow> 2000000 \<le> now - t0)
     \<and> dict_get data ''challenge_id'' JNull = JStr c \<and> c \<noteq> [] \<and> challenges s c = None"
  then show "verify_response data ip now s =
       (Inr [(''success'', JBool False), (''error'', JStr ''Invalid challenge'')],
        s\<lparr>challenge_attempts := (challenge_attempts s)(ip \<mapsto> now)\<rparr>)"
    by (intro verify_invalid) simp_all
next
  assume "(\<forall>t0. challenge_attempts s ip = Some t0 \<longrightarrow> 2000000 \<le> now - t0)
     \<and> dict_get data ''challenge_id'' JNull = JInt i \<and> i \<noteq> 0
     \<and> - (2 ^ 63) \<le> i \<and> i < 2 ^ 63 \<and> challenges s (str_int i) = None"
  then show "verify_response data ip now s =
       (Inr [(''success'', JBool False), (''error'', JStr ''Invalid challenge'')],
        s\<lparr>challenge_attempts := (challenge_attempts s)(ip \<mapsto> now)\<rparr>)"
    by (intro verify_invalid) simp_all
next
  assume "(\<forall>t0. challenge_attempts s ip = Some t0 \<longrightarrow> 2000000 \<le> now - t0)
     \<and> dict_get data ''challenge_id'' JNull = JBool True \<and> challenges s ''1'' = None"
  then show "verify_response data ip now s =
       (Inr [(''success'', JBool False), (''error'', JStr ''Invalid challenge'')],
        s\<lparr>challenge_attempts := (challenge_attempts s)(ip \<mapsto> now)\<rparr>)"
    by (intro verify_invalid) simp_all
next
  assume "(\<forall>t0. challenge_attempts s ip = Some t0 \<longrightarrow> 2000000 \<le> now - t0)
     \<and> dict_get data ''challenge_id'' JNull \<in> {JNull, JBool False, JInt 0, JStr ''''}"
  then show "verify_response data ip now s =
       (Inr [(''success'', JBool False), (''error'', JStr ''Missing challenge_id'')],
        s\<lparr>challenge_attempts := (challenge_attempts s)(ip \<mapsto> now)\<rparr>)"
    by (intro verify_missing) auto
next
  show "dom (challenges (snd (verify_response data ip now s))) = dom (challenges s)"
    by (rule verify_dom)
next
  assume n: "\<forall>k row. select_by_id (challenges s) (dict_get data ''challenge_id'' JNull)
                    \<noteq> Inr (Some (k, row))"
  show "challenges (snd (verify_response data ip now s)) = challenges s"
  proof (cases rule: verify_cases[where s=s and ip=ip and now=now and data=data])
    case (found k row)
    with n show ?thesis by simp
  qed (simp_all add: verify_limited verify_missing verify_raises verify_invalid)
qed


theorem verify_unknown_id_witness:
  "verify_response [(''challenge_id'', JStr ''ffff''), (''response'', JStr ''7042'')]
       ''10.0.0.1'' 3000000
       (fresh_state\<lparr>challenges := [''0f3a'' \<mapsto>
            \<lparr>sequence = ''7042'', created_at = 0, attempts = 0, solved = False,
             challenge_type = ''synthetic''\<rparr>]\<rparr>)
     = (Inr [(''success'', JBool False), (''error'', JStr ''Invalid challenge'')],
        fresh_state\<lparr>challenge_attempts := [''10.0.0.1'' \<mapsto> 3000000],
                    challenges := [''0f3a'' \<mapsto>
            \<lparr>sequence = ''7042'', created_at = 0, attempts = 0, solved = False,
             challenge_type = ''synthetic''\<rparr>]\<rparr>)
   \<and> fst (verify_response [(''challenge_id'', JInt 42)] ''10.0.0.1'' 3000000 fresh_state)
     = Inr [(''success'', JBool False), (''error'', JStr ''Invalid challenge'')]
   \<and> fst (verify_response [(''challenge_id'', JBool True)] ''10.0.0.1'' 3000000 fresh_state)
     = Inr [(''success'', JBool False), (''error'', JStr ''Invalid challenge'')]
   \<and> fst (verify_response [(''response'', JStr ''7042'')] ''10.0.0.1'' 3000000 fresh_state)
     = Inr [(''success'', JBool False), (''error'', JStr ''Missing challenge_id'')]
   \<and> challenges
        (snd (verify_response [(''challenge_id'', JInt 9223372036854775808)]
               ''10.0.0.1'' 3000000 fresh_state)) = Map.empty"
proof -
  let ?row = "\<lparr>sequence = ''7042'', created_at = 0, attempts = 0, solved = False,
             challenge_type = ''synthetic''\<rparr>"
  let ?s = "fresh_state\<lparr>challenges := [''0f3a'' \<mapsto> ?row]\<rparr>"
  have one: "verify_response [(''challenge_id'', JStr ''ffff''), (''response'', JStr ''7042'')]
       ''10.0.0.1'' 3000000 ?s
     = (Inr [(''success'', JBool False), (''error'', JStr ''Invalid challenge'')],
        fresh_state\<lparr>challenge_attempts := [''10.0.0.1'' \<mapsto> 3000000],
                    challenges := [''0f3a'' \<mapsto> ?row]\<rparr>)"
    using verify_unknown_id[where s = ?s and ip = "''10.0.0.1''" and now = 3000000
            and data = "[(''challenge_id'', JStr ''ffff''), (''response'', JStr ''7042'')]"
            and c = "''ffff''"]
    by (simp add: fresh_state_def dict_get_def)
  have two: "fst (verify_response [(''challenge_id'', JInt 42)] ''10.0.0.1'' 3000000 fresh_state)
     = Inr [(''success'', JBool False), (''error'', JStr ''Invalid challenge'')]"
    using verify_unknown_id[where s = fresh_state and ip = "''10.0.0.1''" and now = 3000000
            and data = "[(''challenge_id'', JInt 42)]" and i = 42]
    by (simp add: fresh_state_def dict_get_def)
  have three: "fst (verify_response [(''challenge_id'', JBool True)] ''10.0.0.1'' 3000000 fresh_state)
     = Inr [(''success'', JBool False), (''error'', JStr ''Invalid challenge'')]"
    using verify_unknown_id[where s = fresh_state and ip = "''10.0.0.1''" and now = 3000000
            and data = "[(''challenge_id'', JBool True)]"]
    by (simp add: fresh_state_def dict_get_def)
  have four: "fst (verify_response [(''response'', JStr ''7042'')] ''10.0.0.1'' 3000000 fresh_state)
     = Inr [(''success'', JBool False), (''error'', JStr ''Missing challenge_id'')]"
    using verify_unknown_id[where s = fresh_state and ip = "''10.0.0.1''" and now = 3000000
            and data = "[(''response'', JStr ''7042'')]"]
    by (simp add: fresh_state_def dict_get_def)
  have five: "challenges
        (snd (verify_response [(''challenge_id'', JInt 9223372036854775808)]
               ''10.0.0.1'' 3000000 fresh_state)) = Map.empty"
    using verify_unknown_id[where s = fresh_state and ip = "''10.0.0.1''" and now = 3000000
            and data = "[(''challenge_id'', JInt 9223372036854775808)]"]
    by (simp add: fresh_state_def dict_get_def)
  from one two three four five show ?thesis by blast
qed

subsection \<open>C6: empty cleaned strings\<close>

text \<open>
  Claim C6 says that an empty cleaned response never matches a non-empty expected
  answer, and that a stored answer that cleans to the empty string is never reported
  as a match. The handler compares the two cleaned strings and nothing else: against
  the stored answer \<^verbatim>\<open>abcd\<close>, which is not empty and cleans to the empty string, the
  response \<^verbatim>\<open>wxyz\<close> is reported as a match and the row is marked solved.
\<close>

theorem empty_expected_counterexample:
  "verify_response [(''challenge_id'', JStr ''0f3a''), (''response'', JStr ''wxyz'')]
       ''10.0.0.1'' 3000000
       (fresh_state\<lparr>challenges := [''0f3a'' \<mapsto>
            \<lparr>sequence = ''abcd'', created_at = 0, attempts = 0, solved = False,
             challenge_type = ''synthetic''\<rparr>]\<rparr>)
     = (Inr [(''success'', JBool True),
             (''message'', JStr ''Access granted''),
             (''expected'', JStr ''''),
             (''provided'', JStr '''')],
        fresh_state\<lparr>challenge_attempts := [''10.0.0.1'' \<mapsto> 3000000],
                    challenges := [''0f3a'' \<mapsto>
            \<lparr>sequence = ''abcd'', created_at = 0, attempts = 1, solved = True,
             challenge_type = ''synthetic''\<rparr>]\<rparr>)"
  by (simp add: verify_response_def fresh_state_def dict_get_def isdigit_def Let_def)

text \<open>
  Claim C6 as amended. For a verify call that passes the gate and selects a row: an
  empty cleaned response does not match a stored answer whose cleaned form is not
  empty; when the stored answer cleans to the empty string, the call reports a match
  exactly when the response cleans to the empty string too. No row stored by the
  creation handlers, in any run from the initial state, has an answer that cleans to
  the empty string.
\<close>

theorem verify_empty_cleaned:
  "((\<forall>t0. challenge_attempts s ip = Some t0 \<longrightarrow> 2000000 \<le> now - t0)
     \<and> truthy (dict_get data ''challenge_id'' JNull)
     \<and> select_by_id (challenges s) (dict_get data ''challenge_id'' JNull) = Inr (Some (k, row))
    \<longrightarrow>
     (\<exists>d. fst (verify_response data ip now s) = Inr d
        \<and> (filter isdigit (py_str (dict_get data ''response'' (JStr ''''))) = []
             \<and> filter isdigit (sequence row) \<noteq> []
            \<longrightarrow> map_of d ''success'' = Some (JBool False))
        \<and> (filter isdigit (sequence row) = []
            \<longrightarrow> map_of d ''success''
                  = Some (JBool (filter isdigit (py_str (dict_get data ''response'' (JStr ''''))) = [])))))
   \<and> (challenges (run digest rs (initial_state g0)) cid = Some row'
      \<longrightarrow> filter isdigit (sequence row') \<noteq> [])"
proof (intro conjI impI)
  assume "(\<forall>t0. challenge_attempts s ip = Some t0 \<longrightarrow> 2000000 \<le> now - t0)
     \<and> truthy (dict_get data ''challenge_id'' JNull)
     \<and> select_by_id (challenges s) (dict_get data ''challenge_id'' JNull) = Inr (Some (k, row))"
  then show "\<exists>d. fst (verify_response data ip now s) = Inr d
        \<and> (filter isdigit (py_str (dict_get data ''response'' (JStr ''''))) = []
             \<and> filter isdigit (sequence row) \<noteq> []
            \<longrightarrow> map_of d ''success'' = Some (JBool False))
        \<and> (filter isdigit (sequence row) = []
            \<longrightarrow> map_of d ''success''
                  = Some (JBool (filter isdigit (py_str (dict_get data ''response'' (JStr ''''))) = [])))"
    by (auto simp: verify_found Let_def)
next
  assume a: "challenges (run digest rs (initial_state g0)) cid = Some row'"
  have "store_ok (run digest rs (initial_state g0))" using reachable_inv by simp
  with a have "decimal (sequence row')" "3 \<le> length (sequence row')"
    by (auto simp: store_ok_def)
  then show "filter isdigit (sequence row') \<noteq> []"
    by (auto simp: decimal_isdigit)
qed

theorem verify_empty_cleaned_witness:
  "(\<exists>d. fst (verify_response [(''challenge_id'', JStr ''0f3a''), (''response'', JStr ''wxyz'')]
              ''10.0.0.1'' 3000000
              (fresh_state\<lparr>challenges := [''0f3a'' \<mapsto>
                 \<lparr>sequence = ''7042'', created_at = 0, attempts = 0, solved = False,
                  challenge_type = ''synthetic''\<rparr>]\<rparr>)) = Inr d
        \<and> map_of d ''success'' = Some (JBool False))
   \<and> (\<exists>d. fst (verify_response [(''challenge_id'', JStr ''0f3a''), (''response'', JStr ''12'')]
              ''10.0.0.1'' 3000000
              (fresh_state\<lparr>challenges := [''0f3a'' \<mapsto>
                 \<lparr>sequence = ''abcd'', created_at = 0, attempts = 0, solved = False,
                  challenge_type = ''synthetic''\<rparr>]\<rparr>)) = Inr d
        \<and> map_of d ''success'' = Some (JBool False))
   \<and> filter isdigit
        (sequence (the (challenges
           (run (\<lambda>text now. ''c4ca4238a0b923820dcc509a6f75849b'')
              [Alternative 5000000 5000000 (\<lambda>i. i)] (initial_state (\<lambda>i. i)))
           ''c4ca4238a0b92382''))) \<noteq> []"
proof -
  let ?d = "\<lambda>text now :: int. ''c4ca4238a0b923820dcc509a6f75849b''"
  let ?row1 = "\<lparr>sequence = ''7042'', created_at = 0, attempts = 0, solved = False,
                  challenge_type = ''synthetic''\<rparr>"
  let ?row2 = "\<lparr>sequence = ''abcd'', created_at = 0, attempts = 0, solved = False,
                  challenge_type = ''synthetic''\<rparr>"
  let ?s1 = "fresh_state\<lparr>challenges := [''0f3a'' \<mapsto> ?row1]\<rparr>"
  let ?s2 = "fresh_state\<lparr>challenges := [''0f3a'' \<mapsto> ?row2]\<rparr>"
  have one: "\<exists>d. fst (verify_response [(''challenge_id'', JStr ''0f3a''), (''response'', JStr ''wxyz'')]
              ''10.0.0.1'' 3000000 ?s1) = Inr d \<and> map_of d ''success'' = Some (JBool False)"
    using verify_empty_cleaned[of ?s1 "''10.0.0.1''" 3000000
            "[(''challenge_id'', JStr ''0f3a''), (''response'', JStr ''wxyz'')]" "''0f3a''" ?row1]
    by (simp add: fresh_state_def dict_get_def isdigit_def)
  have two: "\<exists>d. fst (verify_response [(''challenge_id'', JStr ''0f3a''), (''response'', JStr ''12'')]
              ''10.0.0.1'' 3000000 ?s2) = Inr d \<and> map_of d ''success'' = Some (JBool False)"
    using verify_empty_cleaned[of ?s2 "''10.0.0.1''" 3000000
            "[(''challenge_id'', JStr ''0f3a''), (''response'', JStr ''12'')]" "''0f3a''" ?row2]
    by (simp add: fresh_state_def dict_get_def isdigit_def)
  have emp: "challenges (initial_state (\<lambda>i. i)) = Map.empty" using initial_state_ok by simp
  have "\<exists>row. challenges (run ?d [Alternative 5000000 5000000 (\<lambda>i. i)] (initial_state (\<lambda>i. i)))
           ''c4ca4238a0b92382'' = Some row"
    by (simp add: alternative_challenge_def insert_challenge_def emp Let_def split: prod.splits)
  then obtain row where row: "challenges (run ?d [Alternative 5000000 5000000 (\<lambda>i. i)] (initial_state (\<lambda>i. i)))
           ''c4ca4238a0b92382'' = Some row" by blast
  with verify_empty_cleaned[where digest = ?d and rs = "[Alternative 5000000 5000000 (\<lambda>i. i)]"
          and ?g0.0 = "\<lambda>i. i" and cid = "''c4ca4238a0b92382''" and row' = row]
  have "filter isdigit (sequence row) \<noteq> []" by blast
  with row one two show ?thesis by simp
qed

subsection \<open>C7: a created record is fresh\<close>

text \<open>
  Claim C7. Whenever \<open>enhanced_generate_challenge\<close> or \<open>alternative_challenge\<close>
  answers with a challenge, the table read at the returned \<^verbatim>\<open>challenge_id\<close> right
  afterwards holds a row with \<^verbatim>\<open>attempts = 0\<close>, \<^verbatim>\<open>solved\<close> false and, as sequence,
  the sequence that was generated: the \<^verbatim>\<open>true_text\<close> or \<^verbatim>\<open>sequence\<close> of the
  generator's dictionary for the first handler, the three digits drawn for the second.
  The reply carries the same sequence.
\<close>

theorem created_record_fresh:
  "(enhanced_generate_challenge digest data now now' g s = (Inr resp, s') \<longrightarrow>
      (\<exists>cid sq ty ch s1 g1.
          map_of resp ''challenge_id'' = Some (JStr cid)
        \<and> map_of resp ''sequence'' = Some (JStr sq)
        \<and> chosen data g s = (Inr ch, s1, g1)
        \<and> sq = dict_get ch ''true_text'' (dict_get ch ''sequence'' '''')
        \<and> challenges s' cid = Some \<lparr>sequence = sq, created_at = now', attempts = 0,
                                      solved = False, challenge_type = ty\<rparr>))
   \<and> (alternative_challenge digest now now' g s = (Inr resp, s') \<longrightarrow>
      (\<exists>cid. map_of resp ''challenge_id'' = Some (JStr cid)
        \<and> map_of resp ''sequence'' = Some (JStr (fst (choices ''0123456789'' 3 g)))
        \<and> challenges s' cid = Some \<lparr>sequence = fst (choices ''0123456789'' 3 g),
                                      created_at = now', attempts = 0,
                                      solved = False, challenge_type = ''alternative''\<rparr>))"
proof (intro conjI impI)
  assume run: "enhanced_generate_challenge digest data now now' g s = (Inr resp, s')"
  from enhanced_effect[OF run]
  show "\<exists>cid sq ty ch s1 g1.
          map_of resp ''challenge_id'' = Some (JStr cid)
        \<and> map_of resp ''sequence'' = Some (JStr sq)
        \<and> chosen data g s = (Inr ch, s1, g1)
        \<and> sq = dict_get ch ''true_text'' (dict_get ch ''sequence'' '''')
        \<and> challenges s' cid = Some \<lparr>sequence = sq, created_at = now', attempts = 0,
                                      solved = False, challenge_type = ty\<rparr>"
    by fastforce
next
  assume run: "alternative_challenge digest now now' g s = (Inr resp, s')"
  from alternative_effect[OF run]
  show "\<exists>cid. map_of resp ''challenge_id'' = Some (JStr cid)
        \<and> map_of resp ''sequence'' = Some (JStr (fst (choices ''0123456789'' 3 g)))
        \<and> challenges s' cid = Some \<lparr>sequence = fst (choices ''0123456789'' 3 g),
                                      created_at = now', attempts = 0,
                                      solved = False, challenge_type = ''alternative''\<rparr>"
    by auto
qed


theorem created_record_fresh_witness:
  "(\<exists>resp s'.
      enhanced_generate_challenge (\<lambda>text now. ''c4ca4238a0b923820dcc509a6f75849b'') [] 0 7
        (\<lambda>i. [7, 0, 4, 2] ! (i mod 4))
        (fresh_state\<lparr>audio_files := [''/simulated/audio/audio_000.wav''],
                     text_labels := [''12345''], use_dataset := True\<rparr>) = (Inr resp, s')
      \<and> map_of resp ''challenge_id'' = Some (JStr ''c4ca4238a0b92382'')
      \<and> map_of resp ''sequence'' = Some (JStr ''12345'')
      \<and> (\<exists>ty. challenges s' ''c4ca4238a0b92382''
             = Some \<lparr>sequence = ''12345'', created_at = 7, attempts = 0,
                      solved = False, challenge_type = ty\<rparr>))
   \<and> (\<exists>resp s'.
      alternative_challenge (\<lambda>text now. ''c4ca4238a0b923820dcc509a6f75849b'') 0 7
        (\<lambda>i. [7, 0, 4, 2] ! (i mod 4)) fresh_state = (Inr resp, s')
      \<and> map_of resp ''challenge_id'' = Some (JStr ''c4ca4238a0b92382'')
      \<and> challenges s' ''c4ca4238a0b92382''
             = Some \<lparr>sequence = ''704'', created_at = 7, attempts = 0,
                      solved = False, challenge_type = ''alternative''\<rparr>)"
proof -
  let ?d = "\<lambda>text now :: int. ''c4ca4238a0b923820dcc509a6f75849b''"
  let ?g = "\<lambda>i. [7, 0, 4, 2] ! (i mod 4) :: nat"
  let ?s = "fresh_state\<lparr>audio_files := [''/simulated/audio/audio_000.wav''],
                     text_labels := [''12345''], use_dataset := True\<rparr>"
  obtain resp s' where run: "enhanced_generate_challenge ?d [] 0 7 ?g ?s = (Inr resp, s')"
    and cid: "map_of resp ''challenge_id'' = Some (JStr ''c4ca4238a0b92382'')"
    and sq: "map_of resp ''sequence'' = Some (JStr ''12345'')"
    by (simp add: enhanced_generate_challenge_def generate_challenge_from_dataset_def
          get_random_captcha_def randint_def dict_get_def dict_index_def insert_challenge_def
          fresh_state_def Let_def)
  from created_record_fresh[THEN conjunct1, rule_format, OF run] cid sq
  have one: "\<exists>ty. challenges s' ''c4ca4238a0b92382''
             = Some \<lparr>sequence = ''12345'', created_at = 7, attempts = 0,
                      solved = False, challenge_type = ty\<rparr>"
    by auto
  have c3f: "choices ''0123456789'' 3 ?g = (''704'', \<lambda>i. ?g (i + 3))"
    by (simp add: choices_def upt_rec)
  then have c3: "fst (choices ''0123456789'' 3 ?g) = ''704''" by simp
  obtain resp2 s2 where run2: "alternative_challenge ?d 0 7 ?g fresh_state = (Inr resp2, s2)"
    and cid2: "map_of resp2 ''challenge_id'' = Some (JStr ''c4ca4238a0b92382'')"
    unfolding alternative_challenge_def c3f
    by (simp add: insert_challenge_def fresh_state_def Let_def)
  from created_record_fresh[THEN conjunct2, rule_format, OF run2] cid2
  have two: "challenges s2 ''c4ca4238a0b92382''
             = Some \<lparr>sequence = ''704'', created_at = 7, attempts = 0,
                      solved = False, challenge_type = ''alternative''\<rparr>"
    by (auto simp: c3)
  from run cid sq one run2 cid2 two show ?thesis by blast
qed

subsection \<open>C8: malformed verify input\<close>

text \<open>
  Claim C8 says that a verify request without \<^verbatim>\<open>challenge_id\<close>, or with a response
  that is not a string, is rejected before it changes the rate limiter's record or a
  row. The handler records the time of the call for the address before it looks at
  \<^verbatim>\<open>challenge_id\<close>, and it passes the response through \<^verbatim>\<open>str\<close>: a request
  without \<^verbatim>\<open>challenge_id\<close> from a new address leaves a record for that address, and
  the number \<^verbatim>\<open>7042\<close> as response is verified like the string \<^verbatim>\<open>7042\<close>, counted
  as an attempt and marks the row solved.
\<close>

theorem malformed_verify_counterexample:
  "verify_response [(''response'', JStr ''7042'')] ''10.0.0.1'' 3000000 fresh_state
     = (Inr [(''success'', JBool False), (''error'', JStr ''Missing challenge_id'')],
        fresh_state\<lparr>challenge_attempts := [''10.0.0.1'' \<mapsto> 3000000]\<rparr>)
   \<and> verify_response [(''challenge_id'', JStr ''0f3a''), (''response'', JInt 7042)]
       ''10.0.0.1'' 3000000
       (fresh_state\<lparr>challenges := [''0f3a'' \<mapsto>
            \<lparr>sequence = ''7042'', created_at = 0, attempts = 0, solved = False,
             challenge_type = ''synthetic''\<rparr>]\<rparr>)
     = (Inr [(''success'', JBool True),
             (''message'', JStr ''Access granted''),
             (''expected'', JStr ''7042''),
             (''provided'', JStr ''7042'')],
        fresh_state\<lparr>challenge_attempts := [''10.0.0.1'' \<mapsto> 3000000],
                    challenges := [''0f3a'' \<mapsto>
            \<lparr>sequence = ''7042'', created_at = 0, attempts = 1, solved = True,
             challenge_type = ''synthetic''\<rparr>]\<rparr>)"
  by (simp add: verify_response_def fresh_state_def dict_get_def isdigit_def Let_def
        str_int_def str_nat.simps)

text \<open>
  Claim C8 as amended. A verify request whose \<^verbatim>\<open>challenge_id\<close> is missing (or falsy)
  never changes a row of the table; if it passes the gate it is answered with
  \<^verbatim>\<open>success: false\<close> and the error \<^verbatim>\<open>Missing challenge_id\<close>, and the time of the
  call is recorded for the address. A response that is not a string is not rejected:
  the request is handled exactly as the request with the response \<^verbatim>\<open>str(response)\<close>.
\<close>

theorem malformed_verify:
  "(\<not> truthy (dict_get data ''challenge_id'' JNull) \<longrightarrow>
      challenges (snd (verify_response data ip now s)) = challenges s
      \<and> ((\<forall>t0. challenge_attempts s ip = Some t0 \<longrightarrow> 2000000 \<le> now - t0) \<longrightarrow>
           verify_response data ip now s =
             (Inr [(''success'', JBool False), (''error'', JStr ''Missing challenge_id'')],
              s\<lparr>challenge_attempts := (challenge_attempts s)(ip \<mapsto> now)\<rparr>)))
   \<and> verify_response (AList.update ''response'' v data') ip' now' s'
       = verify_response (AList.update ''response'' (JStr (py_str v)) data') ip' now' s'"
proof (intro conjI impI)
  assume f: "\<not> truthy (dict_get data ''challenge_id'' JNull)"
  show "challenges (snd (verify_response data ip now s)) = challenges s"
  proof (cases rule: verify_cases[where s=s and ip=ip and now=now and data=data])
    case (limited t0)
    then show ?thesis by (simp add: verify_limited)
  next
    case missing
    then show ?thesis by (simp add: verify_missing)
  qed (use f in simp_all)
next
  assume "\<not> truthy (dict_get data ''challenge_id'' JNull)"
    and "\<forall>t0. challenge_attempts s ip = Some t0 \<longrightarrow> 2000000 \<le> now - t0"
  then show "verify_response data ip now s =
             (Inr [(''success'', JBool False), (''error'', JStr ''Missing challenge_id'')],
              s\<lparr>challenge_attempts := (challenge_attempts s)(ip \<mapsto> now)\<rparr>)"
    by (simp add: verify_missing)
next
  have id: "dict_get (AList.update ''response'' x data') ''challenge_id'' JNull
              = dict_get data' ''challenge_id'' JNull" for x
    by (simp add: dict_get_def update_conv')
  have rs: "dict_get (AList.update ''response'' x data') ''response'' (JStr '''') = x" for x
    by (simp add: dict_get_def update_conv')
  have "verify_response d1 ip' now' s' = verify_response d2 ip' now' s'"
    if "dict_get d1 ''challenge_id'' JNull = dict_get d2 ''challenge_id'' JNull"
      and "py_str (dict_get d1 ''response'' (JStr '''')) = py_str (dict_get d2 ''response'' (JStr ''''))"
    for d1 d2
    unfolding verify_response_def Let_def that by (rule refl)
  then show "verify_response (AList.update ''response'' v data') ip' now' s'
       = verify_response (AList.update ''response'' (JStr (py_str v)) data') ip' now' s'"
    by (simp add: id rs)
qed

theorem malformed_verify_witness:
  "verify_response [(''challenge_id'', JStr ''''), (''response'', JStr ''7042'')]
       ''10.0.0.1'' 3000000
       (fresh_state\<lparr>challenges := [''0f3a'' \<mapsto>
            \<lparr>sequence = ''7042'', created_at = 0, attempts = 0, solved = False,
             challenge_type = ''synthetic''\<rparr>]\<rparr>)
     = (Inr [(''success'', JBool False), (''error'', JStr ''Missing challenge_id'')],
        fresh_state\<lparr>challenge_attempts := [''10.0.0.1'' \<mapsto> 3000000],
                    challenges := [''0f3a'' \<mapsto>
            \<lparr>sequence = ''7042'', created_at = 0, attempts = 0, solved = False,
             challenge_type = ''synthetic''\<rparr>]\<rparr>)
   \<and> verify_response [(''challenge_id'', JStr ''0f3a''), (''response'', JBool True)]
       ''10.0.0.1'' 3000000 fresh_state
     = verify_response [(''challenge_id'', JStr ''0f3a''), (''response'', JStr ''True'')]
       ''10.0.0.1'' 3000000 fresh_state"
  using malformed_verify[where
          data = "[(''challenge_id'', JStr ''''), (''response'', JStr ''7042'')]"
          and s = "fresh_state\<lparr>challenges := [''0f3a'' \<mapsto>
            \<lparr>sequence = ''7042'', created_at = 0, attempts = 0, solved = False,
             challenge_type = ''synthetic''\<rparr>]\<rparr>"
          and ip = "''10.0.0.1''" and now = 3000000
          and v = "JBool True"
          and data' = "[(''challenge_id'', JStr ''0f3a''), (''response'', JStr '''')]"
          and ip' = "''10.0.0.1''" and now' = 3000000 and s' = fresh_state]
  by (simp add: fresh_state_def dict_get_def)

subsection \<open>C9: the lengths of the generated sequences\<close>

text \<open>
  Claim C9. Every sequence the generators produce is a string of decimal digits, of
  three to six digits in dataset mode, of four in synthetic mode and of three in
  alternative mode.
  \<^item> \<open>load_audio_samples\<close> produces as many labels as it is asked for, each of three
    to six decimal digits.
  \<^item> \<open>generate_synthetic_challenge\<close> returns the dictionary of type
    \<^verbatim>\<open>synthetic\<close> around the four digits it draws.
  \<^item> \<open>alternative_challenge\<close> draws three digits; unless the id is taken (the
    \<^verbatim>\<open>INSERT\<close> then raises and nothing changes) it stores them and answers with them.
  \<^item> In every state the server reaches from its initial state,
    \<open>enhanced_generate_challenge\<close> asked for the dataset produces a challenge of
    type \<^verbatim>\<open>dataset_audio\<close> with three to six decimal digits, and asked for no dataset
    a challenge of type \<^verbatim>\<open>synthetic\<close> with the four digits drawn; unless the id is
    taken, it stores the sequence with that type and answers with both.
\<close>

theorem sequence_lengths:
  "(\<forall>sq \<in> set (text_labels (fst (load_audio_samples n s g))).
        decimal sq \<and> 3 \<le> length sq \<and> length sq \<le> 6)
   \<and> length (text_labels (fst (load_audio_samples n s g))) = n
   \<and> fst (generate_synthetic_challenge g) =
        [(''type'', ''synthetic''),
         (''sequence'', fst (choices ''0123456789'' 4 g)),
         (''message'', ''Please speak or type the sequence: '' @ fst (choices ''0123456789'' 4 g))]
   \<and> decimal (fst (choices ''0123456789'' 4 g))
   \<and> length (fst (choices ''0123456789'' 4 g)) = 4
   \<and> alternative_challenge digest now now' g s =
        (if take 16 (digest (fst (choices ''0123456789'' 3 g)) now) \<in> dom (challenges s)
         then (Inl IntegrityError, s)
         else (Inr [(''challenge_id'', JStr (take 16 (digest (fst (choices ''0123456789'' 3 g)) now))),
                    (''sequence'', JStr (fst (choices ''0123456789'' 3 g))),
                    (''message'', JStr (''Alternative challenge: Please type ''
                                         @ fst (choices ''0123456789'' 3 g))),
                    (''type'', JStr ''alternative_digits''),
                    (''accessibility_note'', JStr ''Simplified challenge with shorter sequence'')],
               s\<lparr>challenges := (challenges s)
                    (take 16 (digest (fst (choices ''0123456789'' 3 g)) now) \<mapsto>
                       \<lparr>sequence = fst (choices ''0123456789'' 3 g), created_at = now',
                        attempts = 0, solved = False, challenge_type = ''alternative''\<rparr>)\<rparr>))
   \<and> decimal (fst (choices ''0123456789'' 3 g))
   \<and> length (fst (choices ''0123456789'' 3 g)) = 3
   \<and> (\<exists>sq ty. decimal sq
        \<and> (if truthy (dict_get data ''use_dataset'' (JBool True))
            then ty = ''dataset_audio'' \<and> 3 \<le> length sq \<and> length sq \<le> 6
            else ty = ''synthetic'' \<and> sq = fst (choices ''0123456789'' 4 g) \<and> length sq = 4)
        \<and> (take 16 (digest sq now) \<in> dom (challenges (run digest rs (initial_state g0)))
             \<and> fst (enhanced_generate_challenge digest data now now' g
                       (run digest rs (initial_state g0))) = Inl IntegrityError
             \<and> challenges (snd (enhanced_generate_challenge digest data now now' g
                                   (run digest rs (initial_state g0))))
                 = challenges (run digest rs (initial_state g0))
           \<or> take 16 (digest sq now) \<notin> dom (challenges (run digest rs (initial_state g0)))
             \<and> challenges (snd (enhanced_generate_challenge digest data now now' g
                                   (run digest rs (initial_state g0))))
                 = (challenges (run digest rs (initial_state g0)))(take 16 (digest sq now) \<mapsto>
                      \<lparr>sequence = sq, created_at = now', attempts = 0, solved = False,
                       challenge_type = ty\<rparr>)
             \<and> (\<exists>resp. fst (enhanced_generate_challenge digest data now now' g
                               (run digest rs (initial_state g0))) = Inr resp
                   \<and> map_of resp ''sequence'' = Some (JStr sq)
                   \<and> map_of resp ''challenge_type'' = Some (JStr ty))))"
proof (intro conjI)
  obtain s' g' where l: "load_audio_samples n s g = (s', g')" by (metis surj_pair)
  from load_audio_samples_ok[OF l] l
  show "\<forall>sq \<in> set (text_labels (fst (load_audio_samples n s g))).
        decimal sq \<and> 3 \<le> length sq \<and> length sq \<le> 6"
    and "length (text_labels (fst (load_audio_samples n s g))) = n"
    by (simp_all add: dataset_ok_def)
next
  obtain ch g' where c: "generate_synthetic_challenge g = (ch, g')" by (metis surj_pair)
  from synthetic_challenge_shape[OF c] c
  show "fst (generate_synthetic_challenge g) =
        [(''type'', ''synthetic''),
         (''sequence'', fst (choices ''0123456789'' 4 g)),
         (''message'', ''Please speak or type the sequence: '' @ fst (choices ''0123456789'' 4 g))]"
    by auto
next
  show "decimal (fst (choices ''0123456789'' 4 g))" by (rule decimal_choices)
  show "length (fst (choices ''0123456789'' 4 g)) = 4" by (rule length_choices)
  show "decimal (fst (choices ''0123456789'' 3 g))" by (rule decimal_choices)
  show "length (fst (choices ''0123456789'' 3 g)) = 3" by (rule length_choices)
next
  obtain rep s' where run: "alternative_challenge digest now now' g s = (rep, s')"
    by (metis surj_pair)
  from alternative_effect[OF run]
  show "alternative_challenge digest now now' g s =
        (if take 16 (digest (fst (choices ''0123456789'' 3 g)) now) \<in> dom (challenges s)
         then (Inl IntegrityError, s)
         else (Inr [(''challenge_id'', JStr (take 16 (digest (fst (choices ''0123456789'' 3 g)) now))),
                    (''sequence'', JStr (fst (choices ''0123456789'' 3 g))),
                    (''message'', JStr (''Alternative challenge: Please type ''
                                         @ fst (choices ''0123456789'' 3 g))),
                    (''type'', JStr ''alternative_digits''),
                    (''accessibility_note'', JStr ''Simplified challenge with shorter sequence'')],
               s\<lparr>challenges := (challenges s)
                    (take 16 (digest (fst (choices ''0123456789'' 3 g)) now) \<mapsto>
                       \<lparr>sequence = fst (choices ''0123456789'' 3 g), created_at = now',
                        attempts = 0, solved = False, challenge_type = ''alternative''\<rparr>)\<rparr>))"
    unfolding run by auto
next
  let ?S = "run digest rs (initial_state g0)"
  obtain rep s' where run: "enhanced_generate_challenge digest data now now' g ?S = (rep, s')"
    by (metis surj_pair)
  have ok: "dataset_ok ?S" using reachable_inv by simp
  have pk: "paths_ok ?S" and ud: "use_dataset ?S" using reachable_mode by simp_all
  from enhanced_mode[OF ok pk run] ud
  show "\<exists>sq ty. decimal sq
        \<and> (if truthy (dict_get data ''use_dataset'' (JBool True))
            then ty = ''dataset_audio'' \<and> 3 \<le> length sq \<and> length sq \<le> 6
            else ty = ''synthetic'' \<and> sq = fst (choices ''0123456789'' 4 g) \<and> length sq = 4)
        \<and> (take 16 (digest sq now) \<in> dom (challenges ?S)
             \<and> fst (enhanced_generate_challenge digest data now now' g ?S) = Inl IntegrityError
             \<and> challenges (snd (enhanced_generate_challenge digest data now now' g ?S))
                 = challenges ?S
           \<or> take 16 (digest sq now) \<notin> dom (challenges ?S)
             \<and> challenges (snd (enhanced_generate_challenge digest data now now' g ?S))
                 = (challenges ?S)(take 16 (digest sq now) \<mapsto>
                      \<lparr>sequence = sq, created_at = now', attempts = 0, solved = False,
                       challenge_type = ty\<rparr>)
             \<and> (\<exists>resp. fst (enhanced_generate_challenge digest data now now' g ?S) = Inr resp
                   \<and> map_of resp ''sequence'' = Some (JStr sq)
                   \<and> map_of resp ''challenge_type'' = Some (JStr ty)))"
    unfolding run by simp
qed


theorem sequence_lengths_witness:
  "text_labels (fst (load_audio_samples 2 fresh_state (\<lambda>i. i))) = [''123'', ''567'']
   \<and> decimal ''123'' \<and> decimal ''567''
   \<and> fst (generate_synthetic_challenge (\<lambda>i. [7, 0, 4, 2] ! (i mod 4))) =
        [(''type'', ''synthetic''),
         (''sequence'', ''7042''),
         (''message'', ''Please speak or type the sequence: 7042'')]
   \<and> alternative_challenge (\<lambda>text now. ''c4ca4238a0b923820dcc509a6f75849b'') 0 7 (\<lambda>i. i)
        fresh_state =
        (Inr [(''challenge_id'', JStr ''c4ca4238a0b92382''),
              (''sequence'', JStr ''012''),
              (''message'', JStr ''Alternative challenge: Please type 012''),
              (''type'', JStr ''alternative_digits''),
              (''accessibility_note'', JStr ''Simplified challenge with shorter sequence'')],
         fresh_state\<lparr>challenges := [''c4ca4238a0b92382'' \<mapsto>
            \<lparr>sequence = ''012'', created_at = 7, attempts = 0, solved = False,
             challenge_type = ''alternative''\<rparr>]\<rparr>)
   \<and> (\<exists>resp sq.
         fst (enhanced_generate_challenge (\<lambda>text now. ''c4ca4238a0b923820dcc509a6f75849b'') [] 0 7
                (\<lambda>i. i)
                (run (\<lambda>text now. ''c4ca4238a0b923820dcc509a6f75849b'') []
                   (initial_state (\<lambda>i. i)))) = Inr resp
         \<and> map_of resp ''challenge_type'' = Some (JStr ''dataset_audio'')
         \<and> map_of resp ''sequence'' = Some (JStr sq)
         \<and> decimal sq \<and> 3 \<le> length sq \<and> length sq \<le> 6
         \<and> challenges
              (snd (enhanced_generate_challenge (\<lambda>text now. ''c4ca4238a0b923820dcc509a6f75849b'')
                      [] 0 7 (\<lambda>i. i)
                      (run (\<lambda>text now. ''c4ca4238a0b923820dcc509a6f75849b'') []
                         (initial_state (\<lambda>i. i))))) ''c4ca4238a0b92382''
             = Some \<lparr>sequence = sq, created_at = 7, attempts = 0, solved = False,
                     challenge_type = ''dataset_audio''\<rparr>)
   \<and> (\<exists>resp.
         fst (enhanced_generate_challenge (\<lambda>text now. ''c4ca4238a0b923820dcc509a6f75849b'')
                [(''use_dataset'', JBool False)] 0 7 (\<lambda>i. i)
                (run (\<lambda>text now. ''c4ca4238a0b923820dcc509a6f75849b'') []
                   (initial_state (\<lambda>i. i)))) = Inr resp
         \<and> map_of resp ''challenge_type'' = Some (JStr ''synthetic'')
         \<and> map_of resp ''sequence'' = Some (JStr ''0123''))"
proof -
  let ?d = "\<lambda>text now :: int. ''c4ca4238a0b923820dcc509a6f75849b''"
  let ?g = "\<lambda>i :: nat. i"
  let ?S = "run ?d [] (initial_state ?g)"
  note sl = sequence_lengths[where n = 2 and s = fresh_state and g = ?g and digest = ?d
              and now = 0 and now' = 7 and rs = "[]" and ?g0.0 = ?g]
  have labels: "text_labels (fst (load_audio_samples 2 fresh_state ?g)) = [''123'', ''567'']"
    by (simp add: load_audio_samples_def randint_def choices_def upt_rec fresh_state_def
          numeral_2_eq_2)
  from sl[where data = "[]", THEN conjunct1] have d1: "decimal ''123''" "decimal ''567''"
    unfolding labels by simp_all
  have c4: "fst (choices ''0123456789'' 4 (\<lambda>i. [7, 0, 4, 2] ! (i mod 4))) = ''7042''"
    by (simp add: choices_def upt_rec)
  have syn: "fst (generate_synthetic_challenge (\<lambda>i. [7, 0, 4, 2] ! (i mod 4))) =
        [(''type'', ''synthetic''),
         (''sequence'', ''7042''),
         (''message'', ''Please speak or type the sequence: 7042'')]"
    using sequence_lengths[where g = "\<lambda>i. [7, 0, 4, 2] ! (i mod 4)",
            THEN conjunct2, THEN conjunct2, THEN conjunct1]
    unfolding c4 by simp
  have c3: "fst (choices ''0123456789'' 3 ?g) = ''012''"
    by (simp add: choices_def upt_rec)
  have alt: "alternative_challenge ?d 0 7 ?g fresh_state =
        (Inr [(''challenge_id'', JStr ''c4ca4238a0b92382''),
              (''sequence'', JStr ''012''),
              (''message'', JStr ''Alternative challenge: Please type 012''),
              (''type'', JStr ''alternative_digits''),
              (''accessibility_note'', JStr ''Simplified challenge with shorter sequence'')],
         fresh_state\<lparr>challenges := [''c4ca4238a0b92382'' \<mapsto>
            \<lparr>sequence = ''012'', created_at = 7, attempts = 0, solved = False,
             challenge_type = ''alternative''\<rparr>]\<rparr>)"
    using sl[where data = "[]", THEN conjunct2, THEN conjunct2, THEN conjunct2, THEN conjunct2,
             THEN conjunct2, THEN conjunct1]
    unfolding c3 by (simp add: fresh_state_def)
  have emp: "challenges ?S = Map.empty" using initial_state_ok[of ?g] by simp
  have ds: "\<exists>resp sq.
         fst (enhanced_generate_challenge ?d [] 0 7 ?g ?S) = Inr resp
         \<and> map_of resp ''challenge_type'' = Some (JStr ''dataset_audio'')
         \<and> map_of resp ''sequence'' = Some (JStr sq)
         \<and> decimal sq \<and> 3 \<le> length sq \<and> length sq \<le> 6
         \<and> challenges (snd (enhanced_generate_challenge ?d [] 0 7 ?g ?S)) ''c4ca4238a0b92382''
             = Some \<lparr>sequence = sq, created_at = 7, attempts = 0, solved = False,
                     challenge_type = ''dataset_audio''\<rparr>"
    using sl[where data = "[]", THEN conjunct2, THEN conjunct2, THEN conjunct2, THEN conjunct2,
             THEN conjunct2, THEN conjunct2, THEN conjunct2, THEN conjunct2]
    unfolding emp by (auto simp: dict_get_def)
  have c4': "fst (choices ''0123456789'' 4 ?g) = ''0123''"
    by (simp add: choices_def upt_rec)
  have sy: "\<exists>resp.
         fst (enhanced_generate_challenge ?d [(''use_dataset'', JBool False)] 0 7 ?g ?S) = Inr resp
         \<and> map_of resp ''challenge_type'' = Some (JStr ''synthetic'')
         \<and> map_of resp ''sequence'' = Some (JStr ''0123'')"
    using sl[where data = "[(''use_dataset'', JBool False)]", THEN conjunct2, THEN conjunct2,
             THEN conjunct2, THEN conjunct2, THEN conjunct2, THEN conjunct2, THEN conjunct2,
             THEN conjunct2]
    unfolding emp c4' by (auto simp: dict_get_def)
  from labels d1 syn alt ds sy show ?thesis by blast
qed

subsection \<open>C10: stored answers are digit strings\<close>

text \<open>
  Claim C10. In every state the server reaches from its initial state (an empty
  table), each stored sequence consists of decimal digits only, so cleaning it gives
  the sequence back; a verify call that passes the gate and selects the row returns
  the stored sequence itself in the field \<^verbatim>\<open>expected\<close>; and whatever requests follow,
  the row keeps the sequence it was created with.
\<close>

theorem stored_answers_are_digits:
  "challenges (run digest rs (initial_state g0)) k = Some row \<longrightarrow>
     decimal (sequence row)
     \<and> filter isdigit (sequence row) = sequence row
     \<and> ((\<forall>t0. challenge_attempts (run digest rs (initial_state g0)) ip = Some t0
               \<longrightarrow> 2000000 \<le> now - t0)
         \<and> truthy (dict_get data ''challenge_id'' JNull)
         \<and> select_by_id (challenges (run digest rs (initial_state g0)))
               (dict_get data ''challenge_id'' JNull) = Inr (Some (k, row))
        \<longrightarrow> (\<exists>d. fst (verify_response data ip now (run digest rs (initial_state g0))) = Inr d
               \<and> map_of d ''expected'' = Some (JStr (sequence row))))
     \<and> (\<exists>row'. challenges (run digest (rs @ rs') (initial_state g0)) k = Some row'
            \<and> sequence row' = sequence row)"
proof (intro impI conjI)
  assume a: "challenges (run digest rs (initial_state g0)) k = Some row"
  have "store_ok (run digest rs (initial_state g0))" using reachable_inv by simp
  with a show dec: "decimal (sequence row)" by (auto simp: store_ok_def)
  then show cl: "filter isdigit (sequence row) = sequence row" by (rule decimal_isdigit)
  from run_row[OF a, of digest rs']
  show "\<exists>row'. challenges (run digest (rs @ rs') (initial_state g0)) k = Some row'
            \<and> sequence row' = sequence row"
    by (auto simp: run_append)
  assume "(\<forall>t0. challenge_attempts (run digest rs (initial_state g0)) ip = Some t0
               \<longrightarrow> 2000000 \<le> now - t0)
         \<and> truthy (dict_get data ''challenge_id'' JNull)
         \<and> select_by_id (challenges (run digest rs (initial_state g0)))
               (dict_get data ''challenge_id'' JNull) = Inr (Some (k, row))"
  then show "\<exists>d. fst (verify_response data ip now (run digest rs (initial_state g0))) = Inr d
               \<and> map_of d ''expected'' = Some (JStr (sequence row))"
    by (simp add: verify_found Let_def cl)
qed

theorem stored_answers_are_digits_witness:
  "challenges
     (run (\<lambda>text now. ''c4ca4238a0b923820dcc509a6f75849b'')
        [Alternative 5000000 5000000 (\<lambda>i. i)] (initial_state (\<lambda>i. i))) ''c4ca4238a0b92382''
     = Some \<lparr>sequence = ''012'', created_at = 5000000, attempts = 0, solved = False,
             challenge_type = ''alternative''\<rparr>
   \<and> filter isdigit ''012'' = ''012''
   \<and> (\<exists>d. fst (verify_response
                 [(''challenge_id'', JStr ''c4ca4238a0b92382''), (''response'', JStr ''0-1-2'')]
                 ''10.0.0.1'' 6000000
                 (run (\<lambda>text now. ''c4ca4238a0b923820dcc509a6f75849b'')
                    [Alternative 5000000 5000000 (\<lambda>i. i)] (initial_state (\<lambda>i. i)))) = Inr d
          \<and> map_of d ''expected'' = Some (JStr ''012''))"
proof -
  let ?d = "\<lambda>text now :: int. ''c4ca4238a0b923820dcc509a6f75849b''"
  let ?rs = "[Alternative 5000000 5000000 (\<lambda>i. i)]"
  let ?s = "run ?d ?rs (initial_state (\<lambda>i. i))"
  let ?row = "\<lparr>sequence = ''012'', created_at = 5000000, attempts = 0, solved = False,
             challenge_type = ''alternative''\<rparr>"
  let ?data = "[(''challenge_id'', JStr ''c4ca4238a0b92382''), (''response'', JStr ''0-1-2'')]"
  have emp: "challenges (initial_state (\<lambda>i. i)) = Map.empty"
    and lim: "challenge_attempts (initial_state (\<lambda>i. i)) = Map.empty"
    using initial_state_ok[of "\<lambda>i. i"] by simp_all
  have c3: "choices ''0123456789'' 3 (\<lambda>i. i) = (''012'', \<lambda>i. i + 3)"
    by (simp add: choices_def upt_rec)
  have st: "?s = (initial_state (\<lambda>i. i))\<lparr>challenges := [''c4ca4238a0b92382'' \<mapsto> ?row]\<rparr>"
    unfolding run.simps handle.simps alternative_challenge_def c3
    by (simp add: insert_challenge_def emp Let_def)
  have row: "challenges ?s ''c4ca4238a0b92382'' = Some ?row"
    unfolding st by simp
  have pre: "(\<forall>t0. challenge_attempts ?s ''10.0.0.1'' = Some t0 \<longrightarrow> 2000000 \<le> 6000000 - t0)
         \<and> truthy (dict_get ?data ''challenge_id'' JNull)
         \<and> select_by_id (challenges ?s) (dict_get ?data ''challenge_id'' JNull)
              = Inr (Some (''c4ca4238a0b92382'', ?row))"
    unfolding st by (simp add: lim dict_get_def)
  from stored_answers_are_digits[where digest = ?d and rs = ?rs and ?g0.0 = "\<lambda>i. i"
         and k = "''c4ca4238a0b92382''" and row = ?row and ip = "''10.0.0.1''"
         and now = 6000000 and data = ?data, rule_format, OF row]
  have "filter isdigit (sequence ?row) = sequence ?row"
    and "\<exists>d. fst (verify_response ?data ''10.0.0.1'' 6000000 ?s) = Inr d
               \<and> map_of d ''expected'' = Some (JStr (sequence ?row))"
    using pre by blast+
  with row show ?thesis by simp
qed

end
